theory Spec2Isabelle
  imports Main "HOL-Library.Sublist"
begin

section \<open>JavaScript values used by the relay\<close>

text \<open>
  Strings are lists of characters whose codes are read as the code points 0..255 (the
  ISO-8859-1 range of Unicode), which holds every literal of the sources, the accented
  folder names included. \<open>toLowerCase\<close> is the lower-casing of JavaScript restricted to
  that range: A..Z and the accented capitals U+00C0..U+00DE (U+00D7, the multiplication
  sign, apart) move up by 32, every other character stays.
\<close>

definition lowerChar :: "char \<Rightarrow> char" where
  "lowerChar c =
     (let n = (of_char c :: nat)
      in if (65 \<le> n \<and> n \<le> 90) \<or> (192 \<le> n \<and> n \<le> 222 \<and> n \<noteq> 215)
         then char_of (n + 32) else c)"

definition toLowerCase :: "string \<Rightarrow> string" where
  "toLowerCase s = map lowerChar s"

text \<open>
  The canonicalisation of a case-insensitive regular expression without the unicode
  flag: a..z are compared as A..Z, and no character outside ASCII is folded onto an
  ASCII letter.
\<close>

definition upperAscii :: "char \<Rightarrow> char" where
  "upperAscii c =
     (let n = (of_char c :: nat)
      in if 97 \<le> n \<and> n \<le> 122 then char_of (n - 32) else c)"

text \<open>\<open>s.includes(n)\<close>: \<open>n\<close> occurs in \<open>s\<close> as a contiguous run.\<close>

definition str_includes :: "string \<Rightarrow> string \<Rightarrow> bool" where
  "str_includes s n = sublist n s"

text \<open>\<open>xs.join(sep)\<close> on an array of strings.\<close>

fun join :: "string \<Rightarrow> string list \<Rightarrow> string" where
  "join sep [] = []"
| "join sep [x] = x"
| "join sep (x # y # ys) = x @ sep @ join sep (y # ys)"

text \<open>
  An \<open>Error\<close> object: its name and its message. \<open>String(e)\<close> is the name when the
  message is empty, the message when the name is empty, and \<open>name: message\<close> otherwise.
  The error that the IMAP client throws for a command which the server refused has one
  more field, \<open>serverResponseCode\<close>, with the code of the server's answer (TRYCREATE,
  OVERQUOTA, ...); its \<open>message\<close> is the client's own text. No function of the relay
  reads \<open>serverResponseCode\<close>.
\<close>

datatype js_error =
    JsError (err_name: string) (message: string)
  | CommandError (err_name: string) (message: string) (serverResponseCode: string)

definition newError :: "string \<Rightarrow> js_error" where
  "newError m = JsError ''Error'' m"

definition errorToString :: "js_error \<Rightarrow> string" where
  "errorToString e =
     (if err_name e = [] then message e
      else if message e = [] then err_name e
      else err_name e @ '': '' @ message e)"

text \<open>A string read from \<open>process.env\<close> or from an optional field is truthy when it is
  there and not empty; \<open>a || b\<close> is the first truthy operand, else the second.\<close>

definition truthy :: "string option \<Rightarrow> bool" where
  "truthy v = (case v of None \<Rightarrow> False | Some s \<Rightarrow> s \<noteq> [])"

definition orElse :: "string option \<Rightarrow> string option \<Rightarrow> string option" where
  "orElse a b = (if truthy a then a else b)"

definition orDefault :: "string option \<Rightarrow> string \<Rightarrow> string" where
  "orDefault a d = (case a of None \<Rightarrow> d | Some s \<Rightarrow> if s = [] then d else s)"

section \<open>server.js: the SMTP error taxonomy\<close>

text \<open>The object \<open>{ status, message }\<close> that \<open>mapSmtpError\<close> returns; its \<open>message\<close> is
  the field \<open>http_message\<close> here, \<open>message\<close> being the field of an error.\<close>

record http_error =
  status :: nat
  http_message :: string

definition isAuthError :: "string \<Rightarrow> bool" where
  "isAuthError m =
     (str_includes m ''authentication'' \<or> str_includes m ''auth'' \<or>
      str_includes m ''invalid login'' \<or> str_includes m ''535'')"

definition isConnectionError :: "string \<Rightarrow> bool" where
  "isConnectionError m =
     (str_includes m ''connection'' \<or> str_includes m ''connect'' \<or> str_includes m ''timeout'' \<or>
      str_includes m ''enotfound'' \<or> str_includes m ''network'' \<or> str_includes m ''dns'')"

definition isTlsError :: "string \<Rightarrow> bool" where
  "isTlsError m = (str_includes m ''tls'' \<or> str_includes m ''ssl'' \<or> str_includes m ''certificate'')"

definition isRecipientError :: "string \<Rightarrow> bool" where
  "isRecipientError m =
     (str_includes m ''recipient'' \<or> str_includes m ''invalid'' \<or>
      str_includes m ''550'' \<or> str_includes m ''553'')"

definition mapSmtpError :: "js_error \<Rightarrow> http_error" where
  "mapSmtpError error =
     (let m = toLowerCase (message error)
      in if isAuthError m then
           \<lparr>status = 401, http_message = ''Error de autenticaci'' @ [CHR 0xF3] @ ''n SMTP''\<rparr>
         else if isConnectionError m then
           \<lparr>status = 502, http_message = ''Error de conexi'' @ [CHR 0xF3] @ ''n con el servidor SMTP''\<rparr>
         else if isTlsError m then
           \<lparr>status = 502, http_message = ''Error de seguridad TLS/SSL''\<rparr>
         else if isRecipientError m then
           \<lparr>status = 422, http_message = ''Direcci'' @ [CHR 0xF3] @ ''n de email inv'' @ [CHR 0xE1] @ ''lida o rechazada''\<rparr>
         else
           \<lparr>status = 500, http_message = ''Error interno del servidor SMTP''\<rparr>)"

section \<open>The IMAP session\<close>

text \<open>
  \<open>process.env\<close>: each variable is absent or a string.
\<close>

record env =
  SAVE_SENT_COPY :: "string option"
  IMAP_HOST :: "string option"
  IMAP_PORT :: "string option"
  IMAP_SECURE :: "string option"
  IMAP_USER :: "string option"
  IMAP_PASS :: "string option"
  IMAP_MAILBOX :: "string option"
  SMTP_USER :: "string option"
  SMTP_PASS :: "string option"
  FROM_EMAIL :: "string option"
  NODE_ENV :: "string option"

text \<open>
  The options given to \<open>new ImapFlow\<close>. The port is kept as the text that \<open>Number\<close>
  receives (\<open>IMAP_PORT || 993\<close>); its conversion decides no branch.
\<close>

record imap_config =
  host :: string
  port :: string
  secure :: bool
  user :: string
  pass :: string

definition imapConfig :: "env \<Rightarrow> string \<Rightarrow> string \<Rightarrow> imap_config" where
  "imapConfig e u p =
     \<lparr>host = orDefault (IMAP_HOST e) ''imap.ionos.com'',
      port = orDefault (IMAP_PORT e) ''993'',
      secure = (orDefault (IMAP_SECURE e) ''true'' = ''true''),
      user = u, pass = p\<rparr>"

text \<open>
  A listed folder, with the fields the code reads. The client library's \<open>list()\<close> gives
  \<open>flags\<close> as a JavaScript \<open>Set\<close> of strings (the specification's MailboxDescriptor
  has it as a set of strings too), here with its elements in the order of insertion.
  The code tests the field with \<open>mb.flags &&\<close> and calls the array methods \<open>includes\<close>
  and \<open>join\<close> on it, so the two other values that those lines provide for are kept:
  an absent field and an array. An array or a \<open>Set\<close> is truthy, empty or not.
\<close>

datatype js_flags =
    NoFlags
  | ArrayFlags "string list"
  | SetFlags "string list"

record mailbox =
  path :: string
  flags :: js_flags
  specialUse :: "string option"

text \<open>
  A \<open>Set\<close> has neither \<open>includes\<close> nor \<open>join\<close>: \<open>mb.flags.includes\<close> is then
  \<open>undefined\<close>, and calling it throws
  \<open>TypeError: mb.flags.includes is not a function\<close>.
\<close>

definition notAFunction :: "string \<Rightarrow> js_error" where
  "notAFunction m = JsError ''TypeError'' (''mb.flags.'' @ m @ '' is not a function'')"

text \<open>\<open>mb.flags && mb.flags.includes(x)\<close>, as a truth value.\<close>

definition flagsInclude :: "js_flags \<Rightarrow> string \<Rightarrow> js_error + bool" where
  "flagsInclude fl x =
     (case fl of
        NoFlags \<Rightarrow> Inr False
      | ArrayFlags fs \<Rightarrow> Inr (x \<in> set fs)
      | SetFlags fs \<Rightarrow> Inl (notAFunction ''includes''))"

text \<open>\<open>mb.flags ? mb.flags.join(', ') : 'none'\<close>.\<close>

definition flagsJoin :: "js_flags \<Rightarrow> js_error + string" where
  "flagsJoin fl =
     (case fl of
        NoFlags \<Rightarrow> Inr ''none''
      | ArrayFlags fs \<Rightarrow> Inr (join '', '' fs)
      | SetFlags fs \<Rightarrow> Inl (notAFunction ''join''))"

text \<open>
  Every call on the client is a request to the server, which answers with an error or a
  value. An event is a request with its answer; the session's transcript is the list of
  its events, oldest first. A server is any deterministic one: its answer is a function
  of the transcript so far and of the request. The arguments that are the same at every
  call within a session (the flags and the date of an append, the special use asked for
  a new folder, the subject searched, the flag added) are written in the event and not
  handed to the answer. The third argument of an append is written as it is passed: the
  array of flags itself (\<open>appendToSent\<close>) or an object holding it under \<open>flags\<close>
  (\<open>findOrCreateSentBox\<close>).
\<close>

datatype append_arg =
    FlagArray "string list"
  | OptionsObject "string list"

datatype event =
    EvConnect imap_config "js_error + unit"
  | EvLock string "js_error + string"
  | EvRelease string "js_error + unit"
  | EvListSpecial "js_error + mailbox list"
  | EvListAll "js_error + mailbox list"
  | EvCreate string string "js_error + unit"
  | EvAppend string string append_arg "string option" "js_error + unit"
  | EvSearch string "js_error + nat list"
  | EvFlagsAdd "nat list" "string list" "js_error + unit"
  | EvExpunge "js_error + unit"
  | EvLogout "js_error + unit"

record server =
  connect_reply :: "event list \<Rightarrow> imap_config \<Rightarrow> js_error + unit"
  lock_reply :: "event list \<Rightarrow> string \<Rightarrow> js_error + string"
  release_reply :: "event list \<Rightarrow> string \<Rightarrow> js_error + unit"
  list_special_reply :: "event list \<Rightarrow> js_error + mailbox list"
  list_all_reply :: "event list \<Rightarrow> js_error + mailbox list"
  create_reply :: "event list \<Rightarrow> string \<Rightarrow> js_error + unit"
  append_reply :: "event list \<Rightarrow> string \<Rightarrow> string \<Rightarrow> js_error + unit"
  search_reply :: "event list \<Rightarrow> js_error + nat list"
  flags_add_reply :: "event list \<Rightarrow> nat list \<Rightarrow> js_error + unit"
  expunge_reply :: "event list \<Rightarrow> js_error + unit"
  logout_reply :: "event list \<Rightarrow> js_error + unit"

type_synonym 'a io = "event list \<Rightarrow> (js_error + 'a) \<times> event list"

definition connect :: "server \<Rightarrow> imap_config \<Rightarrow> unit io" where
  "connect srv cfg h = (let r = connect_reply srv h cfg in (r, h @ [EvConnect cfg r]))"

text \<open>\<open>client.getMailboxLock(p)\<close>; the value is the lock, known by its \<open>path\<close>.\<close>

definition getMailboxLock :: "server \<Rightarrow> string \<Rightarrow> string io" where
  "getMailboxLock srv p h = (let r = lock_reply srv h p in (r, h @ [EvLock p r]))"

definition release :: "server \<Rightarrow> string \<Rightarrow> unit io" where
  "release srv lk h = (let r = release_reply srv h lk in (r, h @ [EvRelease lk r]))"

text \<open>\<open>client.list({ specialUse: true })\<close> and \<open>client.list('*')\<close>.\<close>

definition listSpecial :: "server \<Rightarrow> mailbox list io" where
  "listSpecial srv h = (let r = list_special_reply srv h in (r, h @ [EvListSpecial r]))"

definition listAll :: "server \<Rightarrow> mailbox list io" where
  "listAll srv h = (let r = list_all_reply srv h in (r, h @ [EvListAll r]))"

definition sentFlag :: string where
  "sentFlag = CHR 0x5C # ''Sent''"

definition seenFlag :: string where
  "seenFlag = CHR 0x5C # ''Seen''"

definition deletedFlag :: string where
  "deletedFlag = CHR 0x5C # ''Deleted''"

text \<open>\<open>client.mailboxCreate(p, { specialUse: '\\Sent' })\<close>.\<close>

definition mailboxCreate :: "server \<Rightarrow> string \<Rightarrow> unit io" where
  "mailboxCreate srv p h =
     (let r = create_reply srv h p in (r, h @ [EvCreate p sentFlag r]))"

text \<open>\<open>client.append(path, content, flags, idate)\<close>.\<close>

definition client_append :: "server \<Rightarrow> string \<Rightarrow> string \<Rightarrow> append_arg \<Rightarrow> string option \<Rightarrow> unit io" where
  "client_append srv p content fl idate h =
     (let r = append_reply srv h p content in (r, h @ [EvAppend p content fl idate r]))"

definition search :: "server \<Rightarrow> string \<Rightarrow> nat list io" where
  "search srv subject h = (let r = search_reply srv h in (r, h @ [EvSearch subject r]))"

definition messageFlagsAdd :: "server \<Rightarrow> nat list \<Rightarrow> string list \<Rightarrow> unit io" where
  "messageFlagsAdd srv ms fl h =
     (let r = flags_add_reply srv h ms in (r, h @ [EvFlagsAdd ms fl r]))"

definition expunge :: "server \<Rightarrow> unit io" where
  "expunge srv h = (let r = expunge_reply srv h in (r, h @ [EvExpunge r]))"

definition logout :: "server \<Rightarrow> unit io" where
  "logout srv h = (let r = logout_reply srv h in (r, h @ [EvLogout r]))"

section \<open>sentbox: findOrCreateSentBox\<close>

record sentbox =
  sentPath :: string
  delimiter :: string
  created :: bool

text \<open>
  Step 1: lock INBOX and release it at once. A failed lock is logged only. A failed
  release is thrown with the variable \<open>lock\<close> still set: the value is then the error
  and the lock.
\<close>

definition inboxProbe :: "server \<Rightarrow> event list \<Rightarrow> (js_error \<times> string) option \<times> event list" where
  "inboxProbe srv h =
     (case getMailboxLock srv ''INBOX'' h of
        (Inl e, h1) \<Rightarrow> (None, h1)
      | (Inr lk, h1) \<Rightarrow>
          (case release srv lk h1 of
             (Inl e, h2) \<Rightarrow> (Some (e, lk), h2)
           | (Inr u, h2) \<Rightarrow> (None, h2)))"

text \<open>
  Step 2. The test of \<open>special.find\<close>: the flags are asked first, and the call of
  \<open>includes\<close> throws before \<open>specialUse\<close> is looked at.
\<close>

definition isSent :: "mailbox \<Rightarrow> js_error + bool" where
  "isSent mb =
     (case flagsInclude (flags mb) sentFlag of
        Inl e \<Rightarrow> Inl e
      | Inr hasFlag \<Rightarrow>
          Inr (hasFlag \<or>
               (case specialUse mb of None \<Rightarrow> False | Some su \<Rightarrow> su \<noteq> [] \<and> su = sentFlag)))"

text \<open>\<open>special.find(mb => ...)\<close>: the first folder that passes the test; an error thrown
  by the test on an earlier folder is thrown by \<open>find\<close>.\<close>

fun findSent :: "mailbox list \<Rightarrow> js_error + mailbox option" where
  "findSent [] = Inr None"
| "findSent (mb # rest) =
     (case isSent mb of
        Inl e \<Rightarrow> Inl e
      | Inr yes \<Rightarrow> if yes then Inr (Some mb) else findSent rest)"

text \<open>The loop that prints the folders of \<open>list('*')\<close>, for the error it can throw.\<close>

fun logFolders :: "mailbox list \<Rightarrow> js_error + unit" where
  "logFolders [] = Inr ()"
| "logFolders (mb # rest) =
     (case flagsJoin (flags mb) of
        Inl e \<Rightarrow> Inl e
      | Inr line \<Rightarrow> logFolders rest)"

text \<open>Step 3: the delimiter, from the first listed path that has a separator.\<close>

fun detectDelimiter :: "mailbox list \<Rightarrow> string" where
  "detectDelimiter [] = ''/''"
| "detectDelimiter (mb # rest) =
     (if str_includes (path mb) ''/'' then ''/''
      else if str_includes (path mb) ''.'' then ''.''
      else detectDelimiter rest)"

definition candidates :: "string \<Rightarrow> string list" where
  "candidates d =
     [''Sent'', ''Sent Items'', ''Sent Messages'',
      ''INBOX'' @ d @ ''Sent'', ''INBOX'' @ d @ ''Sent Items'',
      ''Enviados'', ''Elementos enviados'',
      ''Gesendet'', ''Gesendete Elemente'',
      ''Envoy'' @ [CHR 0xE9] @ ''s'',
      [CHR 0xC9] @ ''l'' @ [CHR 0xE9] @ ''ments envoy'' @ [CHR 0xE9] @ ''s'']"

text \<open>
  \<open>new Map(all.map(mb => [mb.path.toLowerCase(), mb]))\<close>: of two folders with the same
  lower-case path the later one is kept.
\<close>

definition byPath :: "mailbox list \<Rightarrow> string \<rightharpoonup> mailbox" where
  "byPath all = map_of (rev (map (\<lambda>mb. (toLowerCase (path mb), mb)) all))"

definition matchByName :: "string \<Rightarrow> mailbox list \<Rightarrow> mailbox option" where
  "matchByName d all =
     (case find (\<lambda>c. byPath all (toLowerCase c) \<noteq> None) (candidates d) of
        None \<Rightarrow> None
      | Some hit \<Rightarrow> byPath all (toLowerCase hit))"

text \<open>
  Step 4: the creation loop over \<open>tryPaths\<close>. The value is \<open>sent\<close> and \<open>created\<close>.
  A failed creation and a failed re-listing are both caught and the next path is tried;
  \<open>created\<close> is set as soon as one creation is accepted.
\<close>

definition tryPaths :: "string \<Rightarrow> string list" where
  "tryPaths d = [''INBOX'' @ d @ ''Sent'', ''INBOX'' @ d @ ''Sent Items'', ''Sent'']"

fun createLoop :: "server \<Rightarrow> string list \<Rightarrow> bool \<Rightarrow> event list \<Rightarrow> (mailbox option \<times> bool) \<times> event list" where
  "createLoop srv [] c h = ((None, c), h)"
| "createLoop srv (p # ps) c h =
     (case mailboxCreate srv p h of
        (Inl e, h1) \<Rightarrow> createLoop srv ps c h1
      | (Inr u, h1) \<Rightarrow>
          (case listAll srv h1 of
             (Inl e, h2) \<Rightarrow> createLoop srv ps True h2
           | (Inr refreshed, h2) \<Rightarrow>
               (case find (\<lambda>mb. path mb = p) refreshed of
                  Some mb \<Rightarrow> ((Some mb, True), h2)
                | None \<Rightarrow> createLoop srv ps True h2)))"

definition noSentError :: js_error where
  "noSentError = newError
     (''No pude crear ni encontrar carpeta de enviados despu'' @ [CHR 0xE9] @
      ''s de todos los intentos'')"

text \<open>
  Steps 2 to 4 together: the folder chosen, the delimiter and \<open>created\<close>, or the error
  thrown. A failed SPECIAL-USE listing is caught and \<open>special\<close> stays empty; the search
  in \<open>special\<close> is outside that \<open>try\<close>, so what it throws ends the selection, before
  \<open>list('*')\<close> is asked; so do a failed \<open>list('*')\<close>, an error thrown while the folders
  are printed, and a creation loop that leaves no folder.
\<close>

definition selectSent :: "server \<Rightarrow> (mailbox \<times> string \<times> bool) io" where
  "selectSent srv h =
     (case listSpecial srv h of
        (r, h1) \<Rightarrow>
          (case findSent (case r of Inl e \<Rightarrow> [] | Inr special \<Rightarrow> special) of
             Inl e \<Rightarrow> (Inl e, h1)
           | Inr found \<Rightarrow>
               (case listAll srv h1 of
                  (Inl e, h2) \<Rightarrow> (Inl e, h2)
                | (Inr all, h2) \<Rightarrow>
                    (case logFolders all of
                       Inl e \<Rightarrow> (Inl e, h2)
                     | Inr printed \<Rightarrow>
                         (let d = detectDelimiter all;
                              sent = (case found of Some mb \<Rightarrow> Some mb | None \<Rightarrow> matchByName d all)
                          in case sent of
                               Some mb \<Rightarrow> (Inr (mb, d, False), h2)
                             | None \<Rightarrow>
                                 (case createLoop srv (tryPaths d) False h2 of
                                    ((None, c), h3) \<Rightarrow> (Inl noSentError, h3)
                                  | ((Some mb, c), h3) \<Rightarrow> (Inr (mb, d, c), h3)))))))"

text \<open>Step 5: the probe message and its validation.\<close>

definition crlf :: string where
  "crlf = [CHR 0x0D, CHR 0x0A]"

text \<open>\<open>utc\<close> is what \<open>new Date().toUTCString()\<close> gives at the call.\<close>

definition testMessage :: "string \<Rightarrow> string \<Rightarrow> string" where
  "testMessage usr utc =
     ''From: test@piensaajedrez.com'' @ crlf @
     ''To: '' @ usr @ crlf @
     ''Subject: IMAP Discovery Probe - Safe to Delete'' @ crlf @
     ''Date: '' @ utc @ crlf @
     crlf @
     ''This is a test message for IMAP discovery. Safe to delete.'' @ crlf"

text \<open>The third argument of the probe append, \<open>{ flags: ['\\Seen', '\\Deleted'] }\<close>.\<close>

definition probeFlags :: append_arg where
  "probeFlags = OptionsObject [seenFlag, deletedFlag]"

text \<open>
  The clean-up after an accepted probe: lock the folder, search the probe by subject,
  flag what is found as deleted, expunge, release the lock. Every error in it is caught
  and logged, so the value is the transcript alone.
\<close>

definition probeCleanup :: "server \<Rightarrow> string \<Rightarrow> event list \<Rightarrow> event list" where
  "probeCleanup srv sp h =
     (case getMailboxLock srv sp h of
        (Inl e, h1) \<Rightarrow> h1
      | (Inr cleanLock, h1) \<Rightarrow>
          (let h2 =
             (case search srv ''IMAP Discovery Probe'' h1 of
                (Inl e, h2) \<Rightarrow> h2
              | (Inr messages, h2) \<Rightarrow>
                  (if length messages > 0 then
                     (case messageFlagsAdd srv messages [deletedFlag] h2 of
                        (Inl e, h3) \<Rightarrow> h3
                      | (Inr u, h3) \<Rightarrow> snd (expunge srv h3))
                   else h2))
           in snd (release srv cleanLock h2)))"

text \<open>\<open>/TRYCREATE/i.test(msg)\<close>.\<close>

definition isTryCreate :: "string \<Rightarrow> bool" where
  "isTryCreate msg = str_includes (map upperAscii msg) ''TRYCREATE''"

text \<open>\<open>String(e?.message || e)\<close>.\<close>

definition errorText :: "js_error \<Rightarrow> string" where
  "errorText e = (if message e \<noteq> [] then message e else errorToString e)"

text \<open>\<open>await client.logout(); throw err\<close>: a failing logout throws its own error.\<close>

definition logoutThenThrow :: "server \<Rightarrow> js_error \<Rightarrow> unit io" where
  "logoutThenThrow srv err h =
     (case logout srv h of
        (Inl e, h1) \<Rightarrow> (Inl e, h1)
      | (Inr u, h1) \<Rightarrow> (Inl err, h1))"

definition appendFailed :: "string \<Rightarrow> js_error" where
  "appendFailed m = newError (''APPEND fall'' @ [CHR 0xF3] @ '': '' @ m)"

definition appendFailedAfterTryCreate :: "js_error \<Rightarrow> js_error" where
  "appendFailedAfterTryCreate e2 =
     newError (''APPEND fall'' @ [CHR 0xF3] @ '' incluso tras TRYCREATE: '' @ message e2)"

definition probeValidation :: "server \<Rightarrow> string \<Rightarrow> string \<Rightarrow> unit io" where
  "probeValidation srv sp content h =
     (case client_append srv sp content probeFlags None h of
        (Inr u, h1) \<Rightarrow> (Inr (), probeCleanup srv sp h1)
      | (Inl e, h1) \<Rightarrow>
          (if isTryCreate (errorText e) then
             (case mailboxCreate srv sp h1 of
                (Inl e2, h2) \<Rightarrow> logoutThenThrow srv (appendFailedAfterTryCreate e2) h2
              | (Inr u, h2) \<Rightarrow>
                  (case client_append srv sp content probeFlags None h2 of
                     (Inl e2, h3) \<Rightarrow> logoutThenThrow srv (appendFailedAfterTryCreate e2) h3
                   | (Inr u, h3) \<Rightarrow> (Inr (), h3)))
           else logoutThenThrow srv (appendFailed (errorText e)) h1))"

text \<open>
  The \<open>try\<close> block, from step 1 to the \<open>return\<close>. Beside the outcome it gives the
  variable \<open>lock\<close> as the \<open>catch\<close> block finds it.
\<close>

definition tryBlock :: "server \<Rightarrow> string \<Rightarrow> string \<Rightarrow> event list \<Rightarrow>
    ((js_error + sentbox) \<times> string option) \<times> event list" where
  "tryBlock srv usr utc h =
     (case inboxProbe srv h of
        (Some (e, lk), h1) \<Rightarrow> ((Inl e, Some lk), h1)
      | (None, h1) \<Rightarrow>
          (case selectSent srv h1 of
             (Inl e, h2) \<Rightarrow> ((Inl e, None), h2)
           | (Inr (mb, d, c), h2) \<Rightarrow>
               (case probeValidation srv (path mb) (testMessage usr utc) h2 of
                  (Inl e, h3) \<Rightarrow> ((Inl e, None), h3)
                | (Inr u, h3) \<Rightarrow>
                    (case logout srv h3 of
                       (Inl e, h4) \<Rightarrow> ((Inl e, None), h4)
                     | (Inr u, h4) \<Rightarrow>
                         ((Inr \<lparr>sentPath = path mb, delimiter = d, created = c\<rparr>, None), h4)))))"

text \<open>The \<open>catch\<close> block: release a lock still held, log out, both with their errors
  dropped, then throw the error again.\<close>

definition catchBlock :: "server \<Rightarrow> js_error \<Rightarrow> string option \<Rightarrow> sentbox io" where
  "catchBlock srv e lock h =
     (let h1 = (case lock of None \<Rightarrow> h | Some lk \<Rightarrow> snd (release srv lk h));
          h2 = snd (logout srv h1)
      in (Inl e, h2))"

definition credentials :: "env \<Rightarrow> (string \<times> string) option" where
  "credentials e =
     (case (orElse (IMAP_USER e) (SMTP_USER e), orElse (IMAP_PASS e) (SMTP_PASS e)) of
        (Some u, Some p) \<Rightarrow> if u = [] \<or> p = [] then None else Some (u, p)
      | _ \<Rightarrow> None)"

definition credentialsMissing :: js_error where
  "credentialsMissing =
     newError ''IMAP credentials missing (IMAP_USER/IMAP_PASS or SMTP_USER/SMTP_PASS)''"

text \<open>The session starts with an empty transcript; \<open>connect\<close> is outside the \<open>try\<close>.\<close>

definition findOrCreateSentBox :: "env \<Rightarrow> server \<Rightarrow> string \<Rightarrow> (js_error + sentbox) \<times> event list" where
  "findOrCreateSentBox e srv utc =
     (case credentials e of
        None \<Rightarrow> (Inl credentialsMissing, [])
      | Some (u, p) \<Rightarrow>
          (case connect srv (imapConfig e u p) [] of
             (Inl err, h0) \<Rightarrow> (Inl err, h0)
           | (Inr un, h0) \<Rightarrow>
               (case tryBlock srv u utc h0 of
                  ((Inr r, lock), h1) \<Rightarrow> (Inr r, h1)
                | ((Inl err, lock), h1) \<Rightarrow> catchBlock srv err lock h1)))"

section \<open>imap.js: appendToSent\<close>

text \<open>
  The argument \<open>raw\<close> as JavaScript may pass it. Only a string has
  \<open>typeof raw === 'string'\<close>, and of the strings only the empty one is falsy.
\<close>

datatype js_value =
    JsUndefined
  | JsNull
  | JsBoolean bool
  | JsNumber int
  | JsString string
  | JsBuffer "char list"
  | JsObject

fun valueTruthy :: "js_value \<Rightarrow> bool" where
  "valueTruthy JsUndefined = False"
| "valueTruthy JsNull = False"
| "valueTruthy (JsBoolean b) = b"
| "valueTruthy (JsNumber n) = (n \<noteq> 0)"
| "valueTruthy (JsString s) = (s \<noteq> [])"
| "valueTruthy (JsBuffer b) = True"
| "valueTruthy JsObject = True"

fun typeofString :: "js_value \<Rightarrow> bool" where
  "typeofString (JsString s) = True"
| "typeofString v = False"

definition fallbackMailboxes :: "string list" where
  "fallbackMailboxes = [''Enviados'', ''Sent'', ''Sent Items'', ''INBOX.Sent'']"

fun fallbackLoop :: "server \<Rightarrow> string list \<Rightarrow> event list \<Rightarrow> string option \<times> event list" where
  "fallbackLoop srv [] h = (None, h)"
| "fallbackLoop srv (fallback # rest) h =
     (case getMailboxLock srv fallback h of
        (Inr lk, h1) \<Rightarrow> (Some lk, h1)
      | (Inl e, h1) \<Rightarrow> fallbackLoop srv rest h1)"

definition noMailboxError :: "string \<Rightarrow> js_error" where
  "noMailboxError mailbox =
     newError (''No se pudo acceder a ning'' @ [CHR 0xFA] @ ''n buz'' @ [CHR 0xF3] @
       ''n de enviados ('' @ mailbox @ '', '' @ join '', '' fallbackMailboxes @ '')'')"

definition openSentLock :: "server \<Rightarrow> string \<Rightarrow> string io" where
  "openSentLock srv mailbox h =
     (case getMailboxLock srv mailbox h of
        (Inr lk, h1) \<Rightarrow> (Inr lk, h1)
      | (Inl e, h1) \<Rightarrow>
          (case fallbackLoop srv fallbackMailboxes h1 of
             (None, h2) \<Rightarrow> (Inl (noMailboxError mailbox), h2)
           | (Some lk, h2) \<Rightarrow> (Inr lk, h2)))"

text \<open>
  The body of the \<open>try\<close>: connect, lock a mailbox, append into \<open>lock.path\<close>, and in the
  inner \<open>finally\<close> release the lock. The release is not awaited: its failure reaches
  nobody, the outcome of the append stands.
\<close>

definition appendBody :: "server \<Rightarrow> imap_config \<Rightarrow> string \<Rightarrow> string \<Rightarrow> string \<Rightarrow> unit io" where
  "appendBody srv cfg mailbox raw now h =
     (case connect srv cfg h of
        (Inl e, h1) \<Rightarrow> (Inl e, h1)
      | (Inr u, h1) \<Rightarrow>
          (case openSentLock srv mailbox h1 of
             (Inl e, h2) \<Rightarrow> (Inl e, h2)
           | (Inr lk, h2) \<Rightarrow>
               (case client_append srv lk raw (FlagArray [seenFlag]) (Some now) h2 of
                  (r, h3) \<Rightarrow> (r, snd (release srv lk h3)))))"

text \<open>\<open>try { body } catch (error) { log }\<close> and \<open>finally { try { logout } catch { log } }\<close>.\<close>

definition catchAndLog :: "unit io \<Rightarrow> unit io" where
  "catchAndLog body h = (case body h of (Inl e, h1) \<Rightarrow> (Inr (), h1) | (Inr u, h1) \<Rightarrow> (Inr u, h1))"

definition finallyLogout :: "server \<Rightarrow> unit io \<Rightarrow> unit io" where
  "finallyLogout srv body h =
     (case body h of
        (r, h1) \<Rightarrow> (case catchAndLog (logout srv) h1 of
                     (Inl e, h2) \<Rightarrow> (Inl e, h2)
                   | (Inr u, h2) \<Rightarrow> (r, h2)))"

text \<open>\<open>now\<close> is the \<open>new Date()\<close> given to the append as internal date.\<close>

definition appendToSent :: "env \<Rightarrow> server \<Rightarrow> js_value \<Rightarrow> string \<Rightarrow> (js_error + unit) \<times> event list" where
  "appendToSent e srv raw now =
     (if SAVE_SENT_COPY e \<noteq> Some ''true'' then (Inr (), [])
      else
        (case credentials e of
           None \<Rightarrow> (Inr (), [])
         | Some (u, p) \<Rightarrow>
             (if \<not> valueTruthy raw \<or> \<not> typeofString raw then (Inr (), [])
              else
                (case raw of
                   JsString s \<Rightarrow>
                     finallyLogout srv
                       (catchAndLog
                          (appendBody srv (imapConfig e u p)
                             (orDefault (IMAP_MAILBOX e) ''Sent'') s now)) []
                 | _ \<Rightarrow> (Inr (), [])))))"

section \<open>imap.js: buildRFC822Message\<close>

datatype recipients = Single string | Many "string list"

record attachment =
  filename :: string
  content :: string
  contentType :: "string option"

record mail_options =
  mail_from :: "string option"
  mail_to :: "recipients option"
  cc :: "recipients option"
  bcc :: "recipients option"
  subject :: "string option"
  mail_text :: "string option"
  html :: "string option"
  messageId :: "string option"
  attachments :: "attachment list option"

text \<open>
  What the function reads from the clock and the random generator, in the order of the
  reads, each as the text it is printed as.
\<close>

record entropy =
  idNow :: string
  idRandom :: string
  dateUtc :: string
  boundaryNow :: string
  boundaryRandom :: string

definition recipientsText :: "recipients option \<Rightarrow> string" where
  "recipientsText r =
     (case r of
        None \<Rightarrow> ''undefined''
      | Some (Single s) \<Rightarrow> s
      | Some (Many xs) \<Rightarrow> join '', '' xs)"

definition recipientsTruthy :: "recipients option \<Rightarrow> bool" where
  "recipientsTruthy r =
     (case r of None \<Rightarrow> False | Some (Single s) \<Rightarrow> s \<noteq> [] | Some (Many xs) \<Rightarrow> True)"

definition basicHeaders :: "mail_options \<Rightarrow> string option \<Rightarrow> entropy \<Rightarrow> string" where
  "basicHeaders mo fromEmail en =
     (let from = orDefault (orElse fromEmail (mail_from mo)) ''noreply@piensaajedrez.com'';
          to = recipientsText (mail_to mo);
          subj = orDefault (subject mo) [];
          mid = orDefault (messageId mo)
                  (''<'' @ idNow en @ ''.'' @ idRandom en @ ''@piensaajedrez.com>'')
      in ''Message-ID: '' @ mid @ crlf @
         ''Date: '' @ dateUtc en @ crlf @
         ''From: '' @ from @ crlf @
         ''To: '' @ to @ crlf @
         ''Subject: '' @ subj @ crlf @
         ''MIME-Version: 1.0'' @ crlf @
         (if recipientsTruthy (cc mo) then ''Cc: '' @ recipientsText (cc mo) @ crlf else []) @
         (if recipientsTruthy (bcc mo) then ''Bcc: '' @ recipientsText (bcc mo) @ crlf else []))"

definition mimePart :: "string \<Rightarrow> string" where
  "mimePart ty =
     ''Content-Type: '' @ ty @ ''; charset=utf-8'' @ crlf @
     ''Content-Transfer-Encoding: 8bit'' @ crlf @ crlf"

definition buildRFC822Message :: "mail_options \<Rightarrow> string option \<Rightarrow> entropy \<Rightarrow> string" where
  "buildRFC822Message mo fromEmail en =
     (let txt = orDefault (mail_text mo) [];
          raw = basicHeaders mo fromEmail en
      in if truthy (html mo) \<and> txt \<noteq> [] then
           (let boundary = ''boundary_'' @ boundaryNow en @ ''_'' @ boundaryRandom en
            in raw @
               ''Content-Type: multipart/alternative; boundary='' @ [CHR 0x22] @ boundary @ [CHR 0x22] @
                 crlf @ crlf @
               ''--'' @ boundary @ crlf @
               mimePart ''text/plain'' @
               txt @ crlf @ crlf @
               ''--'' @ boundary @ crlf @
               mimePart ''text/html'' @
               orDefault (html mo) [] @ crlf @ crlf @
               ''--'' @ boundary @ ''--'' @ crlf)
         else if truthy (html mo) then
           raw @ mimePart ''text/html'' @ orDefault (html mo) [] @ crlf
         else
           raw @ mimePart ''text/plain'' @ txt @ crlf)"

section \<open>server.js: POST /send\<close>

text \<open>
  \<open>validateSendEmail\<close> (module \<open>./src/validate\<close>) and the transport's \<open>sendMail\<close> are
  parameters of the handler: the first gives the field errors or the validated data,
  the second an error or the delivery report. Attachments are carried as they are
  given; their decoding from base64 is the transport's input only.
\<close>

record send_data =
  data_to :: recipients
  data_subject :: string
  data_text :: "string option"
  data_html :: "string option"
  data_attachments :: "attachment list option"

record send_info =
  info_messageId :: string
  accepted :: "string list"
  rejected :: "string list"

datatype 'd response_body =
    SentBody string "string list" "string list"
  | InvalidBody string 'd
  | ErrorBody string "string option"

record 'd response =
  res_status :: nat
  res_body :: "'d response_body"

definition invalidInput :: string where
  "invalidInput = ''Datos de entrada inv'' @ [CHR 0xE1] @ ''lidos''"

definition mailOptionsOf :: "env \<Rightarrow> send_data \<Rightarrow> mail_options" where
  "mailOptionsOf e d =
     \<lparr>mail_from = FROM_EMAIL e, mail_to = Some (data_to d), cc = None, bcc = None,
      subject = Some (data_subject d), mail_text = data_text d, html = data_html d,
      messageId = None, attachments = data_attachments d\<rparr>"

text \<open>
  What the handler does, in the order in which it takes place: the answer of the
  transport to \<open>sendMail\<close>, the response sent, an answer of the IMAP server received by
  the append that the handler has started.
\<close>

datatype 'd effect =
    Smtp mail_options "js_error + send_info"
  | Responded "'d response"
  | Imap event

text \<open>
  \<open>sendMail\<close> is awaited: its answer comes before anything else. \<open>appendToSent(...)\<close> is
  called and not awaited: the call runs up to the first \<open>await\<close> of the append, the one
  of \<open>client.connect()\<close>, and gives back a promise; the handler attaches \<open>catch\<close> to it
  and goes on, in the same turn, to send the response. The answers of the IMAP server
  are received in later turns, so every event of the append's transcript comes after
  the response; a rejection of the promise would be logged by the \<open>catch\<close> and change
  nothing.
\<close>

definition postSend :: "env \<Rightarrow> ('b \<Rightarrow> 'd + send_data) \<Rightarrow> (mail_options \<Rightarrow> js_error + send_info) \<Rightarrow>
    server \<Rightarrow> entropy \<Rightarrow> string \<Rightarrow> 'b \<Rightarrow> 'd effect list" where
  "postSend e validateSendEmail sendMail srv en now body =
     (case validateSendEmail body of
        Inl details \<Rightarrow>
          [Responded \<lparr>res_status = 422, res_body = InvalidBody invalidInput details\<rparr>]
      | Inr d \<Rightarrow>
          (let mailOptions = mailOptionsOf e d
           in case sendMail mailOptions of
                Inl error \<Rightarrow>
                  (let mappedError = mapSmtpError error
                   in [Smtp mailOptions (Inl error),
                       Responded
                         \<lparr>res_status = status mappedError,
                          res_body = ErrorBody (http_message mappedError)
                            (if NODE_ENV e = Some ''development'' then Some (message error)
                             else None)\<rparr>])
              | Inr info \<Rightarrow>
                  (let background =
                     (if SAVE_SENT_COPY e = Some ''true'' then
                        snd (appendToSent e srv
                               (JsString (buildRFC822Message mailOptions (FROM_EMAIL e) en)) now)
                      else [])
                   in [Smtp mailOptions (Inr info),
                       Responded
                         \<lparr>res_status = 200,
                          res_body = SentBody (info_messageId info) (accepted info) (rejected info)\<rparr>] @
                      map Imap background)))"

section \<open>Reading a transcript\<close>

fun isCreate :: "event \<Rightarrow> bool" where
  "isCreate (EvCreate p su r) = True"
| "isCreate ev = False"

fun isAppend :: "event \<Rightarrow> bool" where
  "isAppend (EvAppend p m fl d r) = True"
| "isAppend ev = False"

fun isLogout :: "event \<Rightarrow> bool" where
  "isLogout (EvLogout r) = True"
| "isLogout ev = False"

fun isRelease :: "event \<Rightarrow> bool" where
  "isRelease (EvRelease p r) = True"
| "isRelease ev = False"

fun acceptedCreate :: "event \<Rightarrow> bool" where
  "acceptedCreate (EvCreate p su (Inr u)) = True"
| "acceptedCreate ev = False"

text \<open>The paths of the creation requests of a transcript, in their order.\<close>

fun createdPaths :: "event list \<Rightarrow> string list" where
  "createdPaths [] = []"
| "createdPaths (EvCreate p su r # es) = p # createdPaths es"
| "createdPaths (ev # es) = createdPaths es"

text \<open>A path with a hierarchy separator in it.\<close>

definition hasSeparator :: "mailbox \<Rightarrow> bool" where
  "hasSeparator mb = (str_includes (path mb) ''/'' \<or> str_includes (path mb) ''.'')"

section \<open>Reading what the handler did\<close>

fun isResponded :: "'d effect \<Rightarrow> bool" where
  "isResponded (Responded r) = True"
| "isResponded x = False"

fun isImap :: "'d effect \<Rightarrow> bool" where
  "isImap (Imap ev) = True"
| "isImap x = False"

text \<open>What took place before the response was sent, the response, and what took place
  after it.\<close>

definition untilResponse :: "'d effect list \<Rightarrow> 'd effect list" where
  "untilResponse did = takeWhile (\<lambda>x. \<not> isResponded x) did"

definition responseOf :: "'d effect list \<Rightarrow> 'd response option" where
  "responseOf did =
     (case dropWhile (\<lambda>x. \<not> isResponded x) did of
        Responded r # rest \<Rightarrow> Some r
      | _ \<Rightarrow> None)"

definition afterResponse :: "'d effect list \<Rightarrow> 'd effect list" where
  "afterResponse did = drop 1 (dropWhile (\<lambda>x. \<not> isResponded x) did)"

section \<open>The status of a transport failure, by keyword\<close>

text \<open>
  The classes of the taxonomy as lists of keywords, in the order in which they are
  tried, each with its status. A message is in a class when one of the keywords of the
  class occurs in it, the case of the letters A to Z set aside; its status is the one
  of the first class it is in, and 500 when it is in none.
\<close>

definition asciiLower :: "char \<Rightarrow> char" where
  "asciiLower c =
     (if (of_char CHR ''A'' :: nat) \<le> of_char c \<and> (of_char c :: nat) \<le> of_char CHR ''Z''
      then char_of ((of_char c :: nat) + 32) else c)"

definition keywordClasses :: "(string list \<times> nat) list" where
  "keywordClasses =
     [([''authentication'', ''auth'', ''invalid login'', ''535''], 401),
      ([''connection'', ''connect'', ''timeout'', ''enotfound'', ''network'', ''dns''], 502),
      ([''tls'', ''ssl'', ''certificate''], 502),
      ([''recipient'', ''invalid'', ''550'', ''553''], 422)]"

definition occursIn :: "string \<Rightarrow> string \<Rightarrow> bool" where
  "occursIn k m = sublist k (map asciiLower m)"

definition statusByKeyword :: "string \<Rightarrow> nat" where
  "statusByKeyword m =
     (case find (\<lambda>cl. list_ex (\<lambda>k. occursIn k m) (fst cl)) keywordClasses of
        None \<Rightarrow> 500
      | Some cl \<Rightarrow> snd cl)"

section \<open>Sample environments and servers\<close>

definition sampleEnv :: env where
  "sampleEnv =
     \<lparr>SAVE_SENT_COPY = Some ''true'', IMAP_HOST = None, IMAP_PORT = None, IMAP_SECURE = None,
      IMAP_USER = Some ''relay@example.org'', IMAP_PASS = Some ''secret'', IMAP_MAILBOX = None,
      SMTP_USER = None, SMTP_PASS = None, FROM_EMAIL = Some ''relay@example.org'',
      NODE_ENV = None\<rparr>"

text \<open>Folders without the field \<open>flags\<close> and with an array of flags.\<close>

definition folder :: "string \<Rightarrow> mailbox" where
  "folder p = \<lparr>path = p, flags = NoFlags, specialUse = None\<rparr>"

definition sentFolder :: "string \<Rightarrow> mailbox" where
  "sentFolder p = \<lparr>path = p, flags = ArrayFlags [sentFlag], specialUse = Some sentFlag\<rparr>"

text \<open>Folders as the client library lists them, their flags in a \<open>Set\<close>: an ordinary
  folder, and the folder that the server designates for sent mail.\<close>

definition hasNoChildren :: string where
  "hasNoChildren = CHR 0x5C # ''HasNoChildren''"

definition listedFolder :: "string \<Rightarrow> mailbox" where
  "listedFolder p = \<lparr>path = p, flags = SetFlags [hasNoChildren], specialUse = None\<rparr>"

definition listedSent :: "string \<Rightarrow> mailbox" where
  "listedSent p =
     \<lparr>path = p, flags = SetFlags [hasNoChildren, sentFlag], specialUse = Some sentFlag\<rparr>"

text \<open>A server that accepts every request: it answers the two listings with the given
  folders, grants each lock under the path asked for, and finds one message.\<close>

definition plainServer :: "mailbox list \<Rightarrow> mailbox list \<Rightarrow> server" where
  "plainServer special listed =
     \<lparr>connect_reply = (\<lambda>h c. Inr ()),
      lock_reply = (\<lambda>h p. Inr p),
      release_reply = (\<lambda>h p. Inr ()),
      list_special_reply = (\<lambda>h. Inr special),
      list_all_reply = (\<lambda>h. Inr listed),
      create_reply = (\<lambda>h p. Inr ()),
      append_reply = (\<lambda>h p m. Inr ()),
      search_reply = (\<lambda>h. Inr [1]),
      flags_add_reply = (\<lambda>h ms. Inr ()),
      expunge_reply = (\<lambda>h. Inr ()),
      logout_reply = (\<lambda>h. Inr ())\<rparr>"

text \<open>A validator over an optional request, and two transports: one that fails with a
  given message and one that accepts the mail.\<close>

definition sampleData :: send_data where
  "sampleData =
     \<lparr>data_to = Single ''ana@example.org'', data_subject = ''Hola'',
      data_text = Some ''hi'', data_html = Some ''<b>hi</b>'', data_attachments = None\<rparr>"

definition sampleValidate :: "send_data option \<Rightarrow> string + send_data" where
  "sampleValidate body = (case body of None \<Rightarrow> Inl ''to: Required'' | Some d \<Rightarrow> Inr d)"

definition failingTransport :: "string \<Rightarrow> mail_options \<Rightarrow> js_error + send_info" where
  "failingTransport m mo = Inl (JsError ''Error'' m)"

definition sampleInfo :: send_info where
  "sampleInfo =
     \<lparr>info_messageId = ''<1@example.org>'', accepted = [''ana@example.org''], rejected = []\<rparr>"

definition acceptingTransport :: "mail_options \<Rightarrow> js_error + send_info" where
  "acceptingTransport mo = Inr sampleInfo"

definition sampleEntropy :: entropy where
  "sampleEntropy =
     \<lparr>idNow = ''1793613600000'', idRandom = ''0.4fzyo82mvyr'',
      dateUtc = ''Mon, 02 Nov 2026 10:00:00 GMT'',
      boundaryNow = ''1793613600001'', boundaryRandom = ''0.9xk3b1h7q2''\<rparr>"

text \<open>A server that refuses the connection.\<close>

definition deadServer :: server where
  "deadServer =
     (plainServer [] [])\<lparr>connect_reply := (\<lambda>h c. Inl (JsError ''Error'' ''connect ECONNREFUSED''))\<rparr>"

text \<open>Mails with both parts, one part, and none; an environment with the copy off.\<close>

definition bothParts :: mail_options where
  "bothParts = mailOptionsOf sampleEnv sampleData"

definition htmlOnly :: mail_options where
  "htmlOnly = bothParts\<lparr>mail_text := None\<rparr>"

definition textOnly :: mail_options where
  "textOnly = bothParts\<lparr>html := None\<rparr>"

definition noParts :: mail_options where
  "noParts = bothParts\<lparr>mail_text := None, html := None\<rparr>"

definition copyOff :: env where
  "copyOff = sampleEnv\<lparr>SAVE_SENT_COPY := Some ''false''\<rparr>"

text \<open>A server whose mailbox is over quota: the SPECIAL-USE listing has the Sent
  folder, every append is refused.\<close>

definition quotaServer :: server where
  "quotaServer =
     (plainServer [sentFolder ''Sent''] [folder ''INBOX'', sentFolder ''Sent''])
       \<lparr>append_reply := (\<lambda>h p m. Inl (JsError ''Error'' ''NO [OVERQUOTA] Quota exceeded''))\<rparr>"

text \<open>A server that accepts everything but drops the connection at logout.\<close>

definition hangupServer :: server where
  "hangupServer =
     (plainServer [sentFolder ''Sent''] [folder ''INBOX'', sentFolder ''Sent''])
       \<lparr>logout_reply := (\<lambda>h. Inl (JsError ''Error'' ''Connection closed''))\<rparr>"

definition sampleUtc :: string where
  "sampleUtc = ''Mon, 02 Nov 2026 10:00:00 GMT''"

text \<open>A server that fails to release a lock.\<close>

definition stuckLockServer :: server where
  "stuckLockServer =
     (plainServer [sentFolder ''Sent''] [folder ''INBOX'', sentFolder ''Sent''])
       \<lparr>release_reply := (\<lambda>h p. Inl (JsError ''Error'' ''Lock lost''))\<rparr>"

text \<open>
  A command that the server refuses, as the client library throws it: the message is
  the library's \<open>Command failed\<close>, the code of the server's answer is in
  \<open>serverResponseCode\<close>.
\<close>

definition commandFailed :: "string \<Rightarrow> js_error" where
  "commandFailed code = CommandError ''Error'' ''Command failed'' code"

text \<open>A server that designates the folder Sent for sent mail, under SPECIAL-USE; the
  same with the designation in \<open>specialUse\<close> alone and no flag at all.\<close>

definition specialUseServer :: server where
  "specialUseServer = plainServer [listedSent ''Sent''] [listedFolder ''INBOX'', listedSent ''Sent'']"

definition attributeServer :: server where
  "attributeServer =
     plainServer [\<lparr>path = ''Sent'', flags = SetFlags [], specialUse = Some sentFlag\<rparr>]
       [listedFolder ''INBOX'', listedFolder ''Sent'']"

text \<open>A server without a Sent designation whose folder names are in other letter
  cases; the same when its SPECIAL-USE listing gives all the folders.\<close>

definition localizedFolders :: "mailbox list" where
  "localizedFolders = [listedFolder ''INBOX'', listedFolder ''ENVIADOS'', listedFolder ''sent items'']"

definition localizedServer :: server where
  "localizedServer = plainServer [] localizedFolders"

definition localizedAllServer :: server where
  "localizedAllServer = plainServer localizedFolders localizedFolders"

text \<open>A server with the inbox alone, and a server that lists no folder at all and
  accepts every creation.\<close>

definition inboxOnlyServer :: server where
  "inboxOnlyServer = plainServer [] [listedFolder ''INBOX'']"

definition silentServer :: server where
  "silentServer = plainServer [] []"

text \<open>
  A server that lists no folder but those created in the session, and refuses every
  append with the answer \<open>NO [TRYCREATE]\<close>.
\<close>

definition freshServer :: server where
  "freshServer =
     (plainServer [] [])
       \<lparr>list_all_reply := (\<lambda>h. Inr (map listedFolder (createdPaths (filter acceptedCreate h)))),
        append_reply := (\<lambda>h p m. Inl (commandFailed ''TRYCREATE''))\<rparr>"

text \<open>The same server with a mailbox over quota: every append is refused with the answer
  \<open>NO [OVERQUOTA]\<close>.\<close>

definition fullServer :: server where
  "fullServer = freshServer\<lparr>append_reply := (\<lambda>h p m. Inl (commandFailed ''OVERQUOTA''))\<rparr>"

text \<open>The two listings of the specification's examples of delimiter detection.\<close>

definition nestedServer :: server where
  "nestedServer =
     plainServer [] [listedFolder ''INBOX'', listedFolder ''INBOX/Work'', listedFolder ''Drafts'']"

definition dottedServer :: server where
  "dottedServer = plainServer [] [listedFolder ''INBOX'', listedFolder ''INBOX.Work'']"
section \<open>Facts about the samples\<close>

lemma str_includes_char: "str_includes s [c] = (c \<in> set s)"
  unfolding str_includes_def
  by (induction s) (auto simp: sublist_Cons_right)

lemma sample_credentials: "credentials sampleEnv = Some (''relay@example.org'', ''secret'')"
  by (simp add: credentials_def sampleEnv_def orElse_def truthy_def)

section \<open>The hierarchy delimiter\<close>

lemma detectDelimiter_find:
  "detectDelimiter listed =
     (case find hasSeparator listed of
        None \<Rightarrow> ''/''
      | Some mb \<Rightarrow> if str_includes (path mb) ''/'' then ''/'' else ''.'')"
  by (induction listed) (auto simp: hasSeparator_def)

lemma detectDelimiter_default:
  "\<forall>mb \<in> set listed. CHR ''/'' \<notin> set (path mb) \<and> CHR ''.'' \<notin> set (path mb) \<Longrightarrow>
   detectDelimiter listed = ''/''"
  by (induction listed) (auto simp: str_includes_char)

section \<open>The status of POST /send\<close>

text \<open>
  Lower-casing a message and folding its letters A to Z agree on whether a keyword
  made of ASCII characters occurs in it: the accented capitals, which lower-casing
  moves as well, are moved onto characters outside ASCII.
\<close>

lemma asciiLower_code:
  "asciiLower c =
     (if 65 \<le> (of_char c :: nat) \<and> (of_char c :: nat) \<le> 90 then char_of ((of_char c :: nat) + 32)
      else c)"
  by (simp add: asciiLower_def)

lemma lower_ascii_agree:
  assumes "(of_char x :: nat) < 128"
  shows "(lowerChar c = x) = (asciiLower c = x)"
proof -
  define n where "n = (of_char c :: nat)"
  have n: "n < 256"
    unfolding n_def by simp
  show ?thesis
  proof (cases "192 \<le> n \<and> n \<le> 222 \<and> n \<noteq> 215")
    case True
    then have l: "lowerChar c = char_of (n + 32)" and a: "asciiLower c = c"
      by (simp_all add: lowerChar_def asciiLower_code n_def [symmetric] Let_def)
    have "(of_char (char_of (n + 32) :: char) :: nat) = n + 32"
      using True by simp
    then have "char_of (n + 32) \<noteq> x"
      using assms True by auto
    moreover have "c \<noteq> x"
      using assms True n_def by auto
    ultimately show ?thesis
      using l a by simp
  next
    case False
    then have "lowerChar c = asciiLower c"
      by (auto simp: lowerChar_def asciiLower_code n_def [symmetric] Let_def)
    then show ?thesis by simp
  qed
qed

lemma map_lower_ascii_agree:
  assumes "\<forall>x \<in> set k. (of_char x :: nat) < 128"
  shows "(map lowerChar w = k) = (map asciiLower w = k)"
  using assms
proof (induction w arbitrary: k)
  case Nil
  show ?case by simp
next
  case (Cons c w)
  show ?case
  proof (cases k)
    case Nil
    then show ?thesis by simp
  next
    case (Cons x k')
    with Cons.prems have x: "(of_char x :: nat) < 128" and k': "\<forall>x \<in> set k'. (of_char x :: nat) < 128"
      by simp_all
    from Cons.IH [OF k'] lower_ascii_agree [OF x, of c] Cons show ?thesis
      by simp
  qed
qed

lemma sublist_map:
  "sublist k (map f m) = (\<exists>a w b. m = a @ w @ b \<and> map f w = k)"
proof
  assume "sublist k (map f m)"
  then obtain ps ss where "map f m = ps @ k @ ss"
    by (auto simp: sublist_def)
  then obtain us vs where m: "m = us @ vs" and "k @ ss = map f vs"
    by (auto simp: map_eq_append_conv)
  then obtain w b where "vs = w @ b" and "map f w = k"
    by (auto simp: append_eq_map_conv)
  with m show "\<exists>a w b. m = a @ w @ b \<and> map f w = k"
    by blast
next
  assume "\<exists>a w b. m = a @ w @ b \<and> map f w = k"
  then obtain a w b where "m = a @ w @ b" and "map f w = k"
    by blast
  then have "map f m = map f a @ k @ map f b"
    by simp
  then show "sublist k (map f m)"
    unfolding sublist_def by blast
qed

lemma includes_ignoring_case:
  assumes "\<forall>x \<in> set k. (of_char x :: nat) < 128"
  shows "str_includes (toLowerCase m) k = occursIn k m"
  unfolding str_includes_def toLowerCase_def occursIn_def sublist_map
  using map_lower_ascii_agree [OF assms] by simp

lemma class_by_keyword:
  "isAuthError (toLowerCase m) =
     list_ex (\<lambda>k. occursIn k m) [''authentication'', ''auth'', ''invalid login'', ''535'']"
  "isConnectionError (toLowerCase m) =
     list_ex (\<lambda>k. occursIn k m)
       [''connection'', ''connect'', ''timeout'', ''enotfound'', ''network'', ''dns'']"
  "isTlsError (toLowerCase m) = list_ex (\<lambda>k. occursIn k m) [''tls'', ''ssl'', ''certificate'']"
  "isRecipientError (toLowerCase m) =
     list_ex (\<lambda>k. occursIn k m) [''recipient'', ''invalid'', ''550'', ''553'']"
  by (simp_all add: isAuthError_def isConnectionError_def isTlsError_def isRecipientError_def
        includes_ignoring_case)

lemma mapSmtpError_by_keyword: "status (mapSmtpError err) = statusByKeyword (message err)"
  unfolding mapSmtpError_def statusByKeyword_def keywordClasses_def Let_def class_by_keyword
  by simp

lemma responseOf_simps:
  "responseOf (Responded r # rest) = Some r"
  "responseOf (Smtp mo x # rest) = responseOf rest"
  "responseOf (Imap ev # rest) = responseOf rest"
  "responseOf [] = (None :: 'd response option)"
  by (simp_all add: responseOf_def)

text \<open>
  Claim C8, amended. The status of a transport failure is selected by keyword: the
  message of the error is searched, the case of its letters set aside, for the keywords
  of each class in turn (authentication, auth, invalid login, 535: 401; connection,
  connect, timeout, enotfound, network, dns: 502; tls, ssl, certificate: 502;
  recipient, invalid, 550, 553: 422), the first class with a keyword in the message
  gives the status, and the status is 500 when no keyword occurs. A request that fails
  validation is answered 422 with the field errors and nothing else is done; when the
  transport accepts the mail the response is 200 with the body
  \<open>{messageId, accepted, rejected}\<close>.
\<close>

theorem send_status_by_keyword:
  "status (mapSmtpError err) = statusByKeyword (message err) \<and>
   (validateSendEmail body = Inl details \<longrightarrow>
      postSend e validateSendEmail sendMail srv en now body =
        [Responded \<lparr>res_status = 422, res_body = InvalidBody invalidInput details\<rparr>]) \<and>
   (validateSendEmail body = Inr d \<and> sendMail (mailOptionsOf e d) = Inl err \<longrightarrow>
      map_option res_status (responseOf (postSend e validateSendEmail sendMail srv en now body)) =
        Some (statusByKeyword (message err))) \<and>
   (validateSendEmail body = Inr d \<and> sendMail (mailOptionsOf e d) = Inr info \<longrightarrow>
      responseOf (postSend e validateSendEmail sendMail srv en now body) =
        Some \<lparr>res_status = 200,
              res_body = SentBody (info_messageId info) (accepted info) (rejected info)\<rparr>)"
  by (simp add: postSend_def Let_def responseOf_simps mapSmtpError_by_keyword)

lemma sample_statuses:
  "statusByKeyword ''AUTHENTICATION FAILED'' = 401"
  "statusByKeyword ''Invalid login: 535 Authentication credentials invalid'' = 401"
  "statusByKeyword ''Connection timeout'' = 502"
  "statusByKeyword ''self signed certificate'' = 502"
  "statusByKeyword ''550 5.1.1 User unknown'' = 422"
  "statusByKeyword ''Message size exceeds fixed limit'' = 500"
  by code_simp+

theorem send_status_by_keyword_witness:
  "status (mapSmtpError (JsError ''Error'' ''AUTHENTICATION FAILED'')) = 401 \<and>
   status (mapSmtpError (JsError ''Error'' ''Connection timeout'')) = 502 \<and>
   status (mapSmtpError (JsError ''Error'' ''self signed certificate'')) = 502 \<and>
   status (mapSmtpError (JsError ''Error'' ''550 5.1.1 User unknown'')) = 422 \<and>
   status (mapSmtpError (JsError ''Error'' ''Message size exceeds fixed limit'')) = 500 \<and>
   postSend sampleEnv sampleValidate acceptingTransport deadServer sampleEntropy ''now'' None =
     [Responded \<lparr>res_status = 422, res_body = InvalidBody invalidInput ''to: Required''\<rparr>] \<and>
   map_option res_status (responseOf (postSend sampleEnv sampleValidate
      (failingTransport ''Invalid login: 535 Authentication credentials invalid'')
      deadServer sampleEntropy ''now'' (Some sampleData))) = Some 401 \<and>
   responseOf (postSend sampleEnv sampleValidate acceptingTransport deadServer sampleEntropy
      ''now'' (Some sampleData)) =
     Some \<lparr>res_status = 200, res_body = SentBody ''<1@example.org>'' [''ana@example.org''] []\<rparr>"
proof -
  let ?login = "''Invalid login: 535 Authentication credentials invalid''"
  have v0: "sampleValidate None = Inl ''to: Required''"
    by (simp add: sampleValidate_def)
  have v1: "sampleValidate (Some sampleData) = Inr sampleData \<and>
      failingTransport ?login (mailOptionsOf sampleEnv sampleData) = Inl (JsError ''Error'' ?login)"
    by (simp add: sampleValidate_def failingTransport_def)
  have v2: "sampleValidate (Some sampleData) = Inr sampleData \<and>
      acceptingTransport (mailOptionsOf sampleEnv sampleData) = Inr sampleInfo"
    by (simp add: sampleValidate_def acceptingTransport_def)
  have s: "status (mapSmtpError (JsError ''Error'' m)) = statusByKeyword m" for m
    using send_status_by_keyword [of "JsError ''Error'' m", THEN conjunct1] by simp
  note t0 = send_status_by_keyword [of "JsError ''Error'' ?login" sampleValidate None
      "''to: Required''" sampleEnv acceptingTransport deadServer sampleEntropy "''now''"
      sampleData sampleInfo, THEN conjunct2, THEN conjunct1, THEN mp, OF v0]
  note t1 = send_status_by_keyword [of "JsError ''Error'' ?login" sampleValidate "Some sampleData"
      "''to: Required''" sampleEnv "failingTransport ?login" deadServer sampleEntropy "''now''"
      sampleData sampleInfo, THEN conjunct2, THEN conjunct2, THEN conjunct1, THEN mp, OF v1]
  note t2 = send_status_by_keyword [of "JsError ''Error'' ?login" sampleValidate "Some sampleData"
      "''to: Required''" sampleEnv acceptingTransport deadServer sampleEntropy "''now''"
      sampleData sampleInfo, THEN conjunct2, THEN conjunct2, THEN conjunct2, THEN mp, OF v2]
  have "map_option res_status (responseOf (postSend sampleEnv sampleValidate
      (failingTransport ?login) deadServer sampleEntropy ''now'' (Some sampleData))) = Some 401"
    using t1 by (simp add: sample_statuses)
  moreover have "responseOf (postSend sampleEnv sampleValidate acceptingTransport deadServer
      sampleEntropy ''now'' (Some sampleData)) =
     Some \<lparr>res_status = 200, res_body = SentBody ''<1@example.org>'' [''ana@example.org''] []\<rparr>"
    using t2 by (simp add: sampleInfo_def)
  ultimately show ?thesis
    using t0 by (simp add: s sample_statuses)
qed

text \<open>
  The claim as stated names the classes by the kind of failure. A recipient rejected
  for the address \<open>author@example.org\<close> is answered 401, because \<open>auth\<close> occurs in
  \<open>author\<close>; a timeout reported as \<open>ETIMEDOUT\<close> and a failed DNS query reported as
  \<open>EAI_AGAIN\<close> are answered 500, no keyword of the connectivity class occurring in them.
\<close>

theorem status_follows_keywords_not_kinds:
  "status (mapSmtpError (JsError ''Error'' ''Recipient address rejected: author@example.org'')) = 401 \<and>
   status (mapSmtpError (JsError ''Error'' ''ETIMEDOUT'')) = 500 \<and>
   status (mapSmtpError (JsError ''Error'' ''queryA EAI_AGAIN smtp.ionos.com'')) = 500"
  by code_simp

section \<open>The body of the composed message\<close>

text \<open>
  Claim C9. With both a non-empty text and a non-empty html the body is
  multipart/alternative under the boundary \<open>boundary_<clock>_<random>\<close>, the text/plain
  part first and the text/html part second; with html alone it is one text/html part;
  with text alone or with neither it is one text/plain part, empty when there is
  neither. Every part is declared \<open>charset=utf-8\<close> and
  \<open>Content-Transfer-Encoding: 8bit\<close>.
\<close>

theorem message_body_shape:
  "(html mo = Some h \<and> h \<noteq> [] \<and> mail_text mo = Some t \<and> t \<noteq> [] \<longrightarrow>
      buildRFC822Message mo fromEmail en =
        basicHeaders mo fromEmail en @
        ''Content-Type: multipart/alternative; boundary='' @ [CHR 0x22] @
          ''boundary_'' @ boundaryNow en @ ''_'' @ boundaryRandom en @ [CHR 0x22] @ crlf @ crlf @
        ''--boundary_'' @ boundaryNow en @ ''_'' @ boundaryRandom en @ crlf @
        ''Content-Type: text/plain; charset=utf-8'' @ crlf @
        ''Content-Transfer-Encoding: 8bit'' @ crlf @ crlf @
        t @ crlf @ crlf @
        ''--boundary_'' @ boundaryNow en @ ''_'' @ boundaryRandom en @ crlf @
        ''Content-Type: text/html; charset=utf-8'' @ crlf @
        ''Content-Transfer-Encoding: 8bit'' @ crlf @ crlf @
        h @ crlf @ crlf @
        ''--boundary_'' @ boundaryNow en @ ''_'' @ boundaryRandom en @ ''--'' @ crlf) \<and>
   (html mo = Some h \<and> h \<noteq> [] \<and> \<not> truthy (mail_text mo) \<longrightarrow>
      buildRFC822Message mo fromEmail en =
        basicHeaders mo fromEmail en @
        ''Content-Type: text/html; charset=utf-8'' @ crlf @
        ''Content-Transfer-Encoding: 8bit'' @ crlf @ crlf @
        h @ crlf) \<and>
   (\<not> truthy (html mo) \<and> mail_text mo = Some t \<longrightarrow>
      buildRFC822Message mo fromEmail en =
        basicHeaders mo fromEmail en @
        ''Content-Type: text/plain; charset=utf-8'' @ crlf @
        ''Content-Transfer-Encoding: 8bit'' @ crlf @ crlf @
        t @ crlf) \<and>
   (\<not> truthy (html mo) \<and> \<not> truthy (mail_text mo) \<longrightarrow>
      buildRFC822Message mo fromEmail en =
        basicHeaders mo fromEmail en @
        ''Content-Type: text/plain; charset=utf-8'' @ crlf @
        ''Content-Transfer-Encoding: 8bit'' @ crlf @ crlf @
        crlf)"
  by (auto simp: buildRFC822Message_def mimePart_def truthy_def orDefault_def Let_def
        split: option.splits)

theorem message_body_shape_witness:
  "buildRFC822Message bothParts None sampleEntropy =
     basicHeaders bothParts None sampleEntropy @
     ''Content-Type: multipart/alternative; boundary='' @ [CHR 0x22] @
       ''boundary_1793613600001_0.9xk3b1h7q2'' @ [CHR 0x22] @ crlf @ crlf @
     ''--boundary_1793613600001_0.9xk3b1h7q2'' @ crlf @
     ''Content-Type: text/plain; charset=utf-8'' @ crlf @
     ''Content-Transfer-Encoding: 8bit'' @ crlf @ crlf @
     ''hi'' @ crlf @ crlf @
     ''--boundary_1793613600001_0.9xk3b1h7q2'' @ crlf @
     ''Content-Type: text/html; charset=utf-8'' @ crlf @
     ''Content-Transfer-Encoding: 8bit'' @ crlf @ crlf @
     ''<b>hi</b>'' @ crlf @ crlf @
     ''--boundary_1793613600001_0.9xk3b1h7q2--'' @ crlf \<and>
   buildRFC822Message htmlOnly None sampleEntropy =
     basicHeaders htmlOnly None sampleEntropy @
     ''Content-Type: text/html; charset=utf-8'' @ crlf @
     ''Content-Transfer-Encoding: 8bit'' @ crlf @ crlf @
     ''<b>hi</b>'' @ crlf \<and>
   buildRFC822Message textOnly None sampleEntropy =
     basicHeaders textOnly None sampleEntropy @
     ''Content-Type: text/plain; charset=utf-8'' @ crlf @
     ''Content-Transfer-Encoding: 8bit'' @ crlf @ crlf @
     ''hi'' @ crlf \<and>
   buildRFC822Message noParts None sampleEntropy =
     basicHeaders noParts None sampleEntropy @
     ''Content-Type: text/plain; charset=utf-8'' @ crlf @
     ''Content-Transfer-Encoding: 8bit'' @ crlf @ crlf @
     crlf"
proof -
  have b: "html bothParts = Some ''<b>hi</b>'' \<and> ''<b>hi</b>'' \<noteq> [] \<and>
      mail_text bothParts = Some ''hi'' \<and> ''hi'' \<noteq> []"
    by (simp add: bothParts_def mailOptionsOf_def sampleData_def)
  have h: "html htmlOnly = Some ''<b>hi</b>'' \<and> ''<b>hi</b>'' \<noteq> [] \<and>
      \<not> truthy (mail_text htmlOnly)"
    by (simp add: htmlOnly_def bothParts_def mailOptionsOf_def sampleData_def truthy_def)
  have t: "\<not> truthy (html textOnly) \<and> mail_text textOnly = Some ''hi''"
    by (simp add: textOnly_def bothParts_def mailOptionsOf_def sampleData_def truthy_def)
  have n: "\<not> truthy (html noParts) \<and> \<not> truthy (mail_text noParts)"
    by (simp add: noParts_def bothParts_def mailOptionsOf_def sampleData_def truthy_def)
  note s1 = message_body_shape [of bothParts "''<b>hi</b>''" "''hi''" None sampleEntropy,
      THEN conjunct1, THEN mp, OF b]
  note s2 = message_body_shape [of htmlOnly "''<b>hi</b>''" "''hi''" None sampleEntropy,
      THEN conjunct2, THEN conjunct1, THEN mp, OF h]
  note s3 = message_body_shape [of textOnly "''<b>hi</b>''" "''hi''" None sampleEntropy,
      THEN conjunct2, THEN conjunct2, THEN conjunct1, THEN mp, OF t]
  note s4 = message_body_shape [of noParts "''<b>hi</b>''" "''hi''" None sampleEntropy,
      THEN conjunct2, THEN conjunct2, THEN conjunct2, THEN mp, OF n]
  have e: "boundaryNow sampleEntropy = ''1793613600001''"
      "boundaryRandom sampleEntropy = ''0.9xk3b1h7q2''"
    by (simp_all add: sampleEntropy_def)
  from s1 s2 s3 s4 show ?thesis
    unfolding e by simp
qed

section \<open>The guards of appendToSent\<close>

text \<open>
  Claim C10. With the flag set to \<open>true\<close> and credentials present, a \<open>raw\<close> that is not
  a string (a Buffer, an object, \<open>undefined\<close>) makes \<open>appendToSent\<close> return normally
  with an empty transcript: no client is made and nothing is sent.
\<close>

theorem non_string_message_is_noop:
  "SAVE_SENT_COPY e = Some ''true'' \<Longrightarrow> credentials e = Some (u, p) \<Longrightarrow> \<not> typeofString raw \<Longrightarrow>
   appendToSent e srv raw now = (Inr (), [])"
  by (simp add: appendToSent_def)

theorem non_string_message_is_noop_witness:
  "appendToSent sampleEnv (plainServer [] []) (JsBuffer ''raw bytes'') ''now'' = (Inr (), []) \<and>
   appendToSent sampleEnv (plainServer [] []) JsUndefined ''now'' = (Inr (), []) \<and>
   appendToSent sampleEnv (plainServer [] []) JsObject ''now'' = (Inr (), [])"
proof -
  have f: "SAVE_SENT_COPY sampleEnv = Some ''true''"
    by (simp add: sampleEnv_def)
  have "\<not> typeofString (JsBuffer ''raw bytes'')" "\<not> typeofString JsUndefined"
      "\<not> typeofString JsObject"
    by simp_all
  then show ?thesis
    using non_string_message_is_noop [OF f sample_credentials] by blast
qed


section \<open>appendToSent never throws\<close>

lemma appendToSent_returns: "fst (appendToSent e srv raw now) = Inr ()"
  by (auto simp: appendToSent_def finallyLogout_def catchAndLog_def
        split: option.splits prod.splits sum.splits js_value.splits)

lemma fallbackLoop_extends: "\<exists>evs. snd (fallbackLoop srv fs h) = h @ evs"
proof (induction fs arbitrary: h)
  case Nil
  show ?case by simp
next
  case (Cons f fs)
  show ?case
  proof (cases "lock_reply srv h f")
    case (Inl err)
    from Cons.IH [of "h @ [EvLock f (Inl err)]"] Inl show ?thesis
      by (auto simp: getMailboxLock_def Let_def)
  next
    case (Inr lk)
    then show ?thesis
      by (simp add: getMailboxLock_def Let_def)
  qed
qed

lemma openSentLock_extends: "\<exists>evs. snd (openSentLock srv mbx h) = h @ evs"
proof (cases "lock_reply srv h mbx")
  case (Inl err)
  from fallbackLoop_extends [of srv fallbackMailboxes "h @ [EvLock mbx (Inl err)]"] Inl
  show ?thesis
    by (auto simp: openSentLock_def getMailboxLock_def Let_def split: prod.splits option.splits)
next
  case (Inr lk)
  then show ?thesis
    by (simp add: openSentLock_def getMailboxLock_def Let_def)
qed

lemma appendBody_starts:
  "\<exists>evs. snd (appendBody srv cfg mbx s now h) = h @ EvConnect cfg (connect_reply srv h cfg) # evs"
proof (cases "connect_reply srv h cfg")
  case (Inl err)
  then show ?thesis
    by (simp add: appendBody_def connect_def Let_def)
next
  case (Inr un)
  let ?h1 = "h @ [EvConnect cfg (Inr un)]"
  from openSentLock_extends [of srv mbx ?h1] obtain evs where
    o: "snd (openSentLock srv mbx ?h1) = ?h1 @ evs"
    by blast
  with Inr show ?thesis
    by (cases "openSentLock srv mbx ?h1")
       (auto simp: appendBody_def connect_def client_append_def release_def Let_def
          split: sum.splits)
qed

text \<open>With the flag on, credentials and a message, the session does take place: it
  starts with the connection and ends with the logout.\<close>

lemma appendToSent_session:
  assumes "SAVE_SENT_COPY e = Some ''true''" and "credentials e = Some (u, p)" and "s \<noteq> []"
  shows "\<exists>evs x. snd (appendToSent e srv (JsString s) now) =
           EvConnect (imapConfig e u p) (connect_reply srv [] (imapConfig e u p)) # evs @ [EvLogout x]"
proof -
  let ?b = "appendBody srv (imapConfig e u p) (orDefault (IMAP_MAILBOX e) ''Sent'') s now []"
  from appendBody_starts [of srv "imapConfig e u p" _ s now "[]"] obtain evs where
    b: "snd ?b = EvConnect (imapConfig e u p) (connect_reply srv [] (imapConfig e u p)) # evs"
    by auto
  have "snd (appendToSent e srv (JsString s) now) = snd ?b @ [EvLogout (logout_reply srv (snd ?b))]"
    using assms
    by (auto simp: appendToSent_def finallyLogout_def catchAndLog_def logout_def Let_def
          split: sum.splits prod.splits)
  with b show ?thesis by simp
qed

lemma untilResponse_simps:
  "untilResponse (Responded r # rest) = []"
  "untilResponse (Smtp mo x # rest) = Smtp mo x # untilResponse rest"
  "untilResponse (Imap ev # rest) = Imap ev # untilResponse rest"
  by (simp_all add: untilResponse_def)

lemma afterResponse_simps:
  "afterResponse (Responded r # rest) = rest"
  "afterResponse (Smtp mo x # rest) = afterResponse rest"
  "afterResponse (Imap ev # rest) = afterResponse rest"
  by (simp_all add: afterResponse_def)

text \<open>
  Claim C7. \<open>appendToSent\<close> returns normally for every environment, server, message
  and date, whatever the server answers; with the flag off, the credentials missing or
  the message missing it returns at once with an empty transcript, and otherwise the
  session takes place, from the connection to the logout. Every request to POST /send
  is answered; no answer of the IMAP server is received before the response is sent;
  what takes place up to the response, and the response, are the same whatever the
  IMAP server does and whenever the append runs; and when a copy is to be saved, what
  takes place after the response is the session of \<open>appendToSent\<close> for the message
  built from the mail.
\<close>

theorem append_never_propagates:
  "fst (appendToSent e srv raw now) = Inr () \<and>
   (SAVE_SENT_COPY e \<noteq> Some ''true'' \<or> credentials e = None \<or> \<not> valueTruthy raw \<longrightarrow>
      appendToSent e srv raw now = (Inr (), [])) \<and>
   (SAVE_SENT_COPY e = Some ''true'' \<and> credentials e = Some (u, p) \<and> s \<noteq> [] \<longrightarrow>
      (\<exists>evs x. snd (appendToSent e srv (JsString s) now) =
         EvConnect (imapConfig e u p) (connect_reply srv [] (imapConfig e u p)) # evs @ [EvLogout x])) \<and>
   (\<exists>r. responseOf (postSend e validateSendEmail sendMail srv en now body) = Some r) \<and>
   filter isImap (untilResponse (postSend e validateSendEmail sendMail srv en now body)) = [] \<and>
   untilResponse (postSend e validateSendEmail sendMail srv en now body) =
     untilResponse (postSend e validateSendEmail sendMail srv' en now' body) \<and>
   responseOf (postSend e validateSendEmail sendMail srv en now body) =
     responseOf (postSend e validateSendEmail sendMail srv' en now' body) \<and>
   (validateSendEmail body = Inr d \<and> sendMail (mailOptionsOf e d) = Inr info \<and>
    SAVE_SENT_COPY e = Some ''true'' \<longrightarrow>
      afterResponse (postSend e validateSendEmail sendMail srv en now body) =
        map Imap (snd (appendToSent e srv
          (JsString (buildRFC822Message (mailOptionsOf e d) (FROM_EMAIL e) en)) now)))"
proof (intro conjI impI)
  show "fst (appendToSent e srv raw now) = Inr ()"
    by (rule appendToSent_returns)
next
  assume "SAVE_SENT_COPY e \<noteq> Some ''true'' \<or> credentials e = None \<or> \<not> valueTruthy raw"
  then show "appendToSent e srv raw now = (Inr (), [])"
    by (auto simp: appendToSent_def split: option.splits)
next
  assume "SAVE_SENT_COPY e = Some ''true'' \<and> credentials e = Some (u, p) \<and> s \<noteq> []"
  then show "\<exists>evs x. snd (appendToSent e srv (JsString s) now) =
      EvConnect (imapConfig e u p) (connect_reply srv [] (imapConfig e u p)) # evs @ [EvLogout x]"
    using appendToSent_session [of e u p s srv now] by simp
next
  show "\<exists>r. responseOf (postSend e validateSendEmail sendMail srv en now body) = Some r"
    by (simp add: postSend_def Let_def responseOf_simps split: sum.splits)
next
  show "filter isImap (untilResponse (postSend e validateSendEmail sendMail srv en now body)) = []"
    by (simp add: postSend_def Let_def untilResponse_simps split: sum.splits)
next
  show "untilResponse (postSend e validateSendEmail sendMail srv en now body) =
     untilResponse (postSend e validateSendEmail sendMail srv' en now' body)"
    by (simp add: postSend_def Let_def untilResponse_simps split: sum.splits)
next
  show "responseOf (postSend e validateSendEmail sendMail srv en now body) =
     responseOf (postSend e validateSendEmail sendMail srv' en now' body)"
    by (simp add: postSend_def Let_def responseOf_simps split: sum.splits)
next
  assume "validateSendEmail body = Inr d \<and> sendMail (mailOptionsOf e d) = Inr info \<and>
    SAVE_SENT_COPY e = Some ''true''"
  then show "afterResponse (postSend e validateSendEmail sendMail srv en now body) =
      map Imap (snd (appendToSent e srv
        (JsString (buildRFC822Message (mailOptionsOf e d) (FROM_EMAIL e) en)) now))"
    by (simp add: postSend_def Let_def afterResponse_simps)
qed

lemma refused_connection:
  "afterResponse (postSend sampleEnv sampleValidate acceptingTransport deadServer sampleEntropy
      ''now'' (Some sampleData)) =
     [Imap (EvConnect (imapConfig sampleEnv ''relay@example.org'' ''secret'')
        (Inl (JsError ''Error'' ''connect ECONNREFUSED''))),
      Imap (EvLogout (Inr ()))]"
  by code_simp

theorem append_never_propagates_witness:
  "fst (appendToSent sampleEnv deadServer (JsString ''Subject: x'') ''now'') = Inr () \<and>
   appendToSent copyOff deadServer (JsString ''Subject: x'') ''now'' = (Inr (), []) \<and>
   (\<exists>evs x. snd (appendToSent sampleEnv deadServer (JsString ''Subject: x'') ''now'') =
      EvConnect (imapConfig sampleEnv ''relay@example.org'' ''secret'')
        (connect_reply deadServer [] (imapConfig sampleEnv ''relay@example.org'' ''secret'')) #
      evs @ [EvLogout x]) \<and>
   (\<exists>r. responseOf (postSend sampleEnv sampleValidate acceptingTransport deadServer sampleEntropy
      ''now'' (Some sampleData)) = Some r) \<and>
   filter isImap (untilResponse (postSend sampleEnv sampleValidate acceptingTransport deadServer
      sampleEntropy ''now'' (Some sampleData))) = [] \<and>
   untilResponse (postSend sampleEnv sampleValidate acceptingTransport deadServer sampleEntropy
      ''now'' (Some sampleData)) =
     untilResponse (postSend sampleEnv sampleValidate acceptingTransport (plainServer [] [])
       sampleEntropy ''later'' (Some sampleData)) \<and>
   responseOf (postSend sampleEnv sampleValidate acceptingTransport deadServer sampleEntropy
      ''now'' (Some sampleData)) =
     responseOf (postSend sampleEnv sampleValidate acceptingTransport (plainServer [] [])
       sampleEntropy ''later'' (Some sampleData)) \<and>
   (map Imap (snd (appendToSent sampleEnv deadServer
      (JsString (buildRFC822Message (mailOptionsOf sampleEnv sampleData) (FROM_EMAIL sampleEnv)
         sampleEntropy)) ''now'')) :: string effect list) =
     [Imap (EvConnect (imapConfig sampleEnv ''relay@example.org'' ''secret'')
        (Inl (JsError ''Error'' ''connect ECONNREFUSED''))),
      Imap (EvLogout (Inr ()))]"
proof -
  let ?raw = "JsString ''Subject: x''"
  have off: "SAVE_SENT_COPY copyOff \<noteq> Some ''true'' \<or> credentials copyOff = None \<or>
      \<not> valueTruthy ?raw"
    by (simp add: copyOff_def sampleEnv_def)
  have on: "SAVE_SENT_COPY sampleEnv = Some ''true'' \<and>
      credentials sampleEnv = Some (''relay@example.org'', ''secret'') \<and> ''Subject: x'' \<noteq> []"
    by (simp add: sample_credentials) (simp add: sampleEnv_def)
  have sent: "sampleValidate (Some sampleData) = Inr sampleData \<and>
      acceptingTransport (mailOptionsOf sampleEnv sampleData) = Inr sampleInfo \<and>
      SAVE_SENT_COPY sampleEnv = Some ''true''"
    by (simp add: sampleValidate_def acceptingTransport_def) (simp add: sampleEnv_def)
  note t = append_never_propagates [of sampleEnv deadServer ?raw "''now''"
      "''relay@example.org''" "''secret''" "''Subject: x''"
      sampleValidate acceptingTransport sampleEntropy "Some sampleData" "plainServer [] []"
      "''later''" sampleData sampleInfo]
  note t_off = append_never_propagates [of copyOff deadServer ?raw "''now''"
      "''relay@example.org''" "''secret''" "''Subject: x''"
      sampleValidate acceptingTransport sampleEntropy "Some sampleData" "plainServer [] []"
      "''later''" sampleData sampleInfo, THEN conjunct2, THEN conjunct1, THEN mp, OF off]
  note t_on = t [THEN conjunct2, THEN conjunct2, THEN conjunct1, THEN mp, OF on]
  note t_after = t [THEN conjunct2, THEN conjunct2, THEN conjunct2, THEN conjunct2, THEN conjunct2,
      THEN conjunct2, THEN conjunct2, THEN mp, OF sent]
  have "(map Imap (snd (appendToSent sampleEnv deadServer
      (JsString (buildRFC822Message (mailOptionsOf sampleEnv sampleData) (FROM_EMAIL sampleEnv)
         sampleEntropy)) ''now'')) :: string effect list) =
     [Imap (EvConnect (imapConfig sampleEnv ''relay@example.org'' ''secret'')
        (Inl (JsError ''Error'' ''connect ECONNREFUSED''))),
      Imap (EvLogout (Inr ()))]"
    by (rule trans [OF t_after [symmetric] refused_connection])
  with t t_off t_on show ?thesis by blast
qed

section \<open>Logging out\<close>

lemmas requests = connect_def getMailboxLock_def release_def listSpecial_def listAll_def
  mailboxCreate_def client_append_def search_def messageFlagsAdd_def expunge_def logout_def

lemma logouts_inboxProbe:
  "filter isLogout (snd (inboxProbe srv h)) = filter isLogout h"
  by (auto simp: inboxProbe_def requests Let_def split: sum.splits)

lemma logouts_createLoop:
  "filter isLogout (snd (createLoop srv ps c h)) = filter isLogout h"
  by (induction ps arbitrary: c h)
     (auto simp: requests Let_def split: sum.splits option.splits)

lemma logouts_selectSent:
  "filter isLogout (snd (selectSent srv h)) = filter isLogout h"
  by (auto simp: selectSent_def requests Let_def logouts_createLoop
        split: sum.splits option.splits prod.splits
        dest!: arg_cong [where f = "\<lambda>x. filter isLogout (snd x)"])

lemma logouts_probeCleanup:
  "filter isLogout (probeCleanup srv sp h) = filter isLogout h"
  by (auto simp: probeCleanup_def requests Let_def split: sum.splits prod.splits)

lemma logouts_probeValidation:
  "length (filter isLogout (snd (probeValidation srv sp msg h))) =
     length (filter isLogout h) + (if isl (fst (probeValidation srv sp msg h)) then 1 else 0)"
  by (auto simp: probeValidation_def logoutThenThrow_def requests Let_def logouts_probeCleanup
        split: sum.splits prod.splits)

lemma logouts_tryBlock:
  "length (filter isLogout (snd (tryBlock srv u utc h))) \<le> length (filter isLogout h) + 1 \<and>
   (isl (fst (fst (tryBlock srv u utc h))) \<or>
      length (filter isLogout (snd (tryBlock srv u utc h))) = length (filter isLogout h) + 1)"
proof -
  obtain x h1 where p: "inboxProbe srv h = (x, h1)"
    by (cases "inboxProbe srv h")
  have l1: "filter isLogout h1 = filter isLogout h"
    using logouts_inboxProbe [of srv h] p by simp
  show ?thesis
  proof (cases x)
    case (Some a)
    with p l1 show ?thesis
      by (simp add: tryBlock_def split: prod.splits)
  next
    case None
    obtain y h2 where s: "selectSent srv h1 = (y, h2)"
      by (cases "selectSent srv h1")
    have l2: "filter isLogout h2 = filter isLogout h"
      using logouts_selectSent [of srv h1] s l1 by simp
    show ?thesis
    proof (cases y)
      case (Inl err)
      with p None s l2 show ?thesis
        by (simp add: tryBlock_def)
    next
      case (Inr sel)
      obtain mb d c where sel: "sel = (mb, d, c)"
        by (cases sel)
      obtain z h3 where v: "probeValidation srv (path mb) (testMessage u utc) h2 = (z, h3)"
        by (cases "probeValidation srv (path mb) (testMessage u utc) h2")
      have l3: "length (filter isLogout h3) =
          length (filter isLogout h) + (if isl z then 1 else 0)"
        using logouts_probeValidation [of srv "path mb" "testMessage u utc" h2] v l2 by simp
      show ?thesis
      proof (cases z)
        case (Inl err)
        with p None s Inr sel v l3 show ?thesis
          by (simp add: tryBlock_def)
      next
        case (Inr un)
        with p None s \<open>y = Inr sel\<close> sel v l3 show ?thesis
          by (auto simp: tryBlock_def logout_def Let_def split: sum.splits)
      qed
    qed
  qed
qed

lemma logouts_catchBlock:
  "length (filter isLogout (snd (catchBlock srv err lk h))) = length (filter isLogout h) + 1"
  by (auto simp: catchBlock_def requests Let_def split: option.splits)

lemma sentbox_logouts:
  assumes "credentials e = Some (u, p)" and "connect_reply srv [] (imapConfig e u p) = Inr ()"
  shows "length (filter isLogout (snd (findOrCreateSentBox e srv utc))) \<in> {1, 2} \<and>
         (\<not> isl (fst (findOrCreateSentBox e srv utc)) \<longrightarrow>
            length (filter isLogout (snd (findOrCreateSentBox e srv utc))) = 1)"
proof -
  let ?h0 = "[EvConnect (imapConfig e u p) (Inr ())]"
  obtain r lk h1 where t: "tryBlock srv u utc ?h0 = ((r, lk), h1)"
    by (cases "tryBlock srv u utc ?h0") auto
  from logouts_tryBlock [of srv u utc ?h0] t
  have b: "length (filter isLogout h1) \<le> 1" and
       c: "isl r \<or> length (filter isLogout h1) = 1"
    by simp_all
  show ?thesis
  proof (cases r)
    case (Inl err)
    have run: "findOrCreateSentBox e srv utc = catchBlock srv err lk h1"
      using assms t Inl by (simp add: findOrCreateSentBox_def connect_def Let_def)
    have "isl (fst (catchBlock srv err lk h1))"
      by (simp add: catchBlock_def Let_def)
    moreover have "length (filter isLogout (snd (catchBlock srv err lk h1))) \<in> {1, 2}"
    proof -
      have "length (filter isLogout h1) = 0 \<or> length (filter isLogout h1) = 1"
        using b by arith
      then show ?thesis
        unfolding logouts_catchBlock [of srv err lk h1] by auto
    qed
    ultimately show ?thesis
      unfolding run by simp
  next
    case (Inr res)
    with assms t c show ?thesis
      by (auto simp: findOrCreateSentBox_def connect_def Let_def)
  qed
qed

lemma logouts_fallbackLoop:
  "filter isLogout (snd (fallbackLoop srv fs h)) = filter isLogout h"
  by (induction fs arbitrary: h) (auto simp: requests Let_def split: sum.splits)

lemma logouts_appendBody:
  "filter isLogout (snd (appendBody srv cfg mbx raw now h)) = filter isLogout h"
  by (auto simp: appendBody_def openSentLock_def requests Let_def logouts_fallbackLoop
        split: sum.splits prod.splits option.splits
        dest!: arg_cong [where f = "\<lambda>x. filter isLogout (snd x)"])

lemma appendToSent_logouts:
  "snd (appendToSent e srv raw now) = [] \<or>
   (\<exists>h x. snd (appendToSent e srv raw now) = h @ [EvLogout x] \<and> filter isLogout h = [])"
proof (cases "snd (appendToSent e srv raw now) = []")
  case True
  then show ?thesis by simp
next
  case False
  then obtain u p s where
    a: "appendToSent e srv raw now =
          finallyLogout srv (catchAndLog
            (appendBody srv (imapConfig e u p) (orDefault (IMAP_MAILBOX e) ''Sent'') s now)) []"
    by (auto simp: appendToSent_def split: if_splits option.splits js_value.splits)
  let ?b = "appendBody srv (imapConfig e u p) (orDefault (IMAP_MAILBOX e) ''Sent'') s now []"
  have "filter isLogout (snd ?b) = []"
    using logouts_appendBody [of srv "imapConfig e u p" _ s now "[]"] by simp
  moreover have "snd (appendToSent e srv raw now) = snd ?b @ [EvLogout (logout_reply srv (snd ?b))]"
    unfolding a
    by (auto simp: finallyLogout_def catchAndLog_def logout_def Let_def split: sum.splits prod.splits)
  ultimately show ?thesis by blast
qed

text \<open>
  Claim C6, at three servers. At a server that refuses the probe append the session of
  \<open>findOrCreateSentBox\<close> is logged out twice: once before the error is thrown and once
  more in the \<open>catch\<close> block. At a server that accepts everything and then fails the
  logout, the failure of the logout is thrown to the caller, after a second logout.
  At a server that fails to release the lock on the inbox, the failure of the release
  is thrown to the caller, after a second release.
\<close>

theorem sentbox_logs_out_twice:
  "findOrCreateSentBox sampleEnv quotaServer sampleUtc =
     (Inl (appendFailed ''NO [OVERQUOTA] Quota exceeded''),
      [EvConnect (imapConfig sampleEnv ''relay@example.org'' ''secret'') (Inr ()),
       EvLock ''INBOX'' (Inr ''INBOX''),
       EvRelease ''INBOX'' (Inr ()),
       EvListSpecial (Inr [sentFolder ''Sent'']),
       EvListAll (Inr [folder ''INBOX'', sentFolder ''Sent'']),
       EvAppend ''Sent'' (testMessage ''relay@example.org'' sampleUtc) probeFlags None
         (Inl (JsError ''Error'' ''NO [OVERQUOTA] Quota exceeded'')),
       EvLogout (Inr ()),
       EvLogout (Inr ())]) \<and>
   fst (findOrCreateSentBox sampleEnv hangupServer sampleUtc) =
     Inl (JsError ''Error'' ''Connection closed'') \<and>
   filter isLogout (snd (findOrCreateSentBox sampleEnv hangupServer sampleUtc)) =
     [EvLogout (Inl (JsError ''Error'' ''Connection closed'')),
      EvLogout (Inl (JsError ''Error'' ''Connection closed''))] \<and>
   fst (findOrCreateSentBox sampleEnv stuckLockServer sampleUtc) =
     Inl (JsError ''Error'' ''Lock lost'') \<and>
   filter isRelease (snd (findOrCreateSentBox sampleEnv stuckLockServer sampleUtc)) =
     [EvRelease ''INBOX'' (Inl (JsError ''Error'' ''Lock lost'')),
      EvRelease ''INBOX'' (Inl (JsError ''Error'' ''Lock lost''))]"
  by code_simp

text \<open>The two logouts again, at a server whose folders are listed with their flags in
  \<open>Set\<close>s and whose refusal is reported by the client as \<open>Command failed\<close>.\<close>

lemma refused_probe_logs_out_twice:
  "fst (findOrCreateSentBox sampleEnv fullServer sampleUtc) = Inl (appendFailed ''Command failed'') \<and>
   filter isLogout (snd (findOrCreateSentBox sampleEnv fullServer sampleUtc)) =
     [EvLogout (Inr ()), EvLogout (Inr ())] \<and>
   filter isAppend (snd (findOrCreateSentBox sampleEnv fullServer sampleUtc)) =
     [EvAppend ''INBOX/Sent'' (testMessage ''relay@example.org'' sampleUtc) probeFlags None
        (Inl (CommandError ''Error'' ''Command failed'' ''OVERQUOTA''))]"
  by code_simp

section \<open>The shape of a run\<close>

text \<open>The run, once the credentials are there and the connection is made.\<close>

lemma run_connected:
  assumes "credentials e = Some (u, p)" and "connect_reply srv [] (imapConfig e u p) = Inr ()"
  shows "findOrCreateSentBox e srv utc =
           (case tryBlock srv u utc [EvConnect (imapConfig e u p) (Inr ())] of
              ((Inr r, lock), h1) \<Rightarrow> (Inr r, h1)
            | ((Inl err, lock), h1) \<Rightarrow> catchBlock srv err lock h1)"
  using assms by (simp add: findOrCreateSentBox_def connect_def Let_def)

lemma run_selection_failed:
  assumes "credentials e = Some (u, p)" and "connect_reply srv [] (imapConfig e u p) = Inr ()"
    and "inboxProbe srv [EvConnect (imapConfig e u p) (Inr ())] = (None, h1)"
    and "selectSent srv h1 = (Inl err, h2)"
  shows "findOrCreateSentBox e srv utc = (Inl err, h2 @ [EvLogout (logout_reply srv h2)])"
  using assms by (simp add: run_connected tryBlock_def catchBlock_def logout_def Let_def)

text \<open>The run from the probe on, for the folder that steps 2 to 4 have chosen.\<close>

lemma run_selected:
  assumes "credentials e = Some (u, p)" and "connect_reply srv [] (imapConfig e u p) = Inr ()"
    and "inboxProbe srv [EvConnect (imapConfig e u p) (Inr ())] = (None, h1)"
    and "selectSent srv h1 = (Inr (mb, d, c), h2)"
  shows "findOrCreateSentBox e srv utc =
           (case probeValidation srv (path mb) (testMessage u utc) h2 of
              (Inl err, h3) \<Rightarrow> (Inl err, h3 @ [EvLogout (logout_reply srv h3)])
            | (Inr un, h3) \<Rightarrow>
                (case logout_reply srv h3 of
                   Inl err \<Rightarrow>
                     (Inl err, h3 @ [EvLogout (Inl err),
                        EvLogout (logout_reply srv (h3 @ [EvLogout (Inl err)]))])
                 | Inr un \<Rightarrow>
                     (Inr \<lparr>sentPath = path mb, delimiter = d, created = c\<rparr>,
                      h3 @ [EvLogout (Inr ())])))"
  using assms
  by (simp add: run_connected tryBlock_def catchBlock_def logout_def Let_def
        split: prod.splits sum.splits)

lemma probe_accepted:
  assumes "append_reply srv h sp msg = Inr ()"
  shows "probeValidation srv sp msg h =
           (Inr (), probeCleanup srv sp (h @ [EvAppend sp msg probeFlags None (Inr ())]))"
  using assms by (simp add: probeValidation_def client_append_def Let_def)

lemma probe_refused:
  assumes "append_reply srv h sp msg = Inl err" and "\<not> isTryCreate (errorText err)"
  shows "probeValidation srv sp msg h =
           (let h1 = h @ [EvAppend sp msg probeFlags None (Inl err)]
            in (case logout_reply srv h1 of
                  Inl e3 \<Rightarrow> Inl e3
                | Inr u \<Rightarrow> Inl (appendFailed (errorText err)),
                h1 @ [EvLogout (logout_reply srv h1)]))"
  using assms
  by (simp add: probeValidation_def logoutThenThrow_def requests Let_def split: sum.splits)

lemma probe_tryCreate:
  assumes "append_reply srv h sp msg = Inl err" and "isTryCreate (errorText err)"
  shows "probeValidation srv sp msg h =
           (let h1 = h @ [EvAppend sp msg probeFlags None (Inl err)];
                h2 = h1 @ [EvCreate sp sentFlag (create_reply srv h1 sp)];
                h3 = h2 @ [EvAppend sp msg probeFlags None (append_reply srv h2 sp msg)]
            in case create_reply srv h1 sp of
                 Inl e2 \<Rightarrow>
                   (case logout_reply srv h2 of
                      Inl e3 \<Rightarrow> Inl e3
                    | Inr u \<Rightarrow> Inl (appendFailedAfterTryCreate e2),
                    h2 @ [EvLogout (logout_reply srv h2)])
               | Inr u \<Rightarrow>
                   (case append_reply srv h2 sp msg of
                      Inl e2 \<Rightarrow>
                        (case logout_reply srv h3 of
                           Inl e3 \<Rightarrow> Inl e3
                         | Inr u \<Rightarrow> Inl (appendFailedAfterTryCreate e2),
                         h3 @ [EvLogout (logout_reply srv h3)])
                    | Inr u \<Rightarrow> (Inr (), h3)))"
  using assms
  by (simp add: probeValidation_def logoutThenThrow_def requests Let_def split: sum.splits)

section \<open>Array methods on a Set of flags\<close>

text \<open>
  A listing whose folders have their flags in a \<open>Set\<close> cannot be searched for the Sent
  designation nor printed: the first folder makes \<open>includes\<close>, or \<open>join\<close>, throw.
\<close>

lemma findSent_set_flags:
  assumes "special \<noteq> []" and "\<forall>mb \<in> set special. \<exists>fs. flags mb = SetFlags fs"
  shows "findSent special = Inl (notAFunction ''includes'')"
  using assms by (cases special) (auto simp: isSent_def flagsInclude_def)

lemma logFolders_set_flags:
  assumes "listed \<noteq> []" and "\<forall>mb \<in> set listed. \<exists>fs. flags mb = SetFlags fs"
  shows "logFolders listed = Inl (notAFunction ''join'')"
  using assms by (cases listed) (auto simp: flagsJoin_def)

text \<open>
  So the selection ends at the SPECIAL-USE listing when that listing has a folder, and
  at \<open>list('*')\<close> when the SPECIAL-USE listing is empty or refused and \<open>list('*')\<close> has a
  folder; no name is matched and no folder is created.
\<close>

lemma selection_ends_at_special:
  assumes "list_special_reply srv h = Inr special" and "special \<noteq> []"
    and "\<forall>mb \<in> set special. \<exists>fs. flags mb = SetFlags fs"
  shows "selectSent srv h = (Inl (notAFunction ''includes''), h @ [EvListSpecial (Inr special)])"
  using assms(1) findSent_set_flags [OF assms(2,3)]
  by (simp add: selectSent_def listSpecial_def Let_def)

lemma selection_ends_at_listing:
  assumes "list_special_reply srv h = Inr [] \<or> isl (list_special_reply srv h)"
    and "list_all_reply srv (h @ [EvListSpecial (list_special_reply srv h)]) = Inr listed"
    and "listed \<noteq> []" and "\<forall>mb \<in> set listed. \<exists>fs. flags mb = SetFlags fs"
  shows "selectSent srv h =
           (Inl (notAFunction ''join''),
            h @ [EvListSpecial (list_special_reply srv h), EvListAll (Inr listed)])"
proof -
  have "findSent (case list_special_reply srv h of Inl e \<Rightarrow> [] | Inr special \<Rightarrow> special) = Inr None"
    using assms(1) by (auto simp: isl_def)
  with assms(2) logFolders_set_flags [OF assms(3,4)] show ?thesis
    by (simp add: selectSent_def listSpecial_def listAll_def Let_def)
qed

text \<open>
  At a server that answers every \<open>list('*')\<close> with at least one folder and gives the
  flags as \<open>Set\<close>s, \<open>findOrCreateSentBox\<close> returns no result, whatever else the server
  does, and asks for no creation and no append.
\<close>

lemma selection_fails_on_set_flags:
  assumes "\<forall>h listed. list_all_reply srv h = Inr listed \<longrightarrow>
             listed \<noteq> [] \<and> (\<forall>mb \<in> set listed. \<exists>fs. flags mb = SetFlags fs)"
  shows "\<exists>err evs. selectSent srv h = (Inl err, h @ evs) \<and>
           filter isCreate evs = [] \<and> filter isAppend evs = []"
proof -
  let ?r = "list_special_reply srv h"
  let ?h1 = "h @ [EvListSpecial ?r]"
  show ?thesis
  proof (cases "findSent (case ?r of Inl e \<Rightarrow> [] | Inr special \<Rightarrow> special)")
    case (Inl err)
    then have "selectSent srv h = (Inl err, ?h1)"
      by (simp add: selectSent_def listSpecial_def Let_def)
    then show ?thesis by simp
  next
    case (Inr found)
    show ?thesis
    proof (cases "list_all_reply srv ?h1")
      case (Inl err)
      with Inr have "selectSent srv h = (Inl err, ?h1 @ [EvListAll (Inl err)])"
        by (simp add: selectSent_def listSpecial_def listAll_def Let_def)
      then show ?thesis by simp
    next
      case listed: (Inr listed)
      with assms have "listed \<noteq> []" and "\<forall>mb \<in> set listed. \<exists>fs. flags mb = SetFlags fs"
        by blast+
      from logFolders_set_flags [OF this] Inr listed
      have "selectSent srv h = (Inl (notAFunction ''join''), ?h1 @ [EvListAll (Inr listed)])"
        by (simp add: selectSent_def listSpecial_def listAll_def Let_def)
      then show ?thesis by simp
    qed
  qed
qed

lemma set_flags_never_resolve:
  assumes "\<forall>h listed. list_all_reply srv h = Inr listed \<longrightarrow>
             listed \<noteq> [] \<and> (\<forall>mb \<in> set listed. \<exists>fs. flags mb = SetFlags fs)"
  shows "isl (fst (findOrCreateSentBox e srv utc)) \<and>
         filter isCreate (snd (findOrCreateSentBox e srv utc)) = [] \<and>
         filter isAppend (snd (findOrCreateSentBox e srv utc)) = []"
proof (cases "credentials e")
  case None
  then show ?thesis
    by (simp add: findOrCreateSentBox_def)
next
  case (Some cr)
  obtain u p where cr: "cr = (u, p)"
    by (cases cr)
  let ?cfg = "imapConfig e u p"
  show ?thesis
  proof (cases "connect_reply srv [] ?cfg")
    case (Inl err)
    with Some cr show ?thesis
      by (simp add: findOrCreateSentBox_def connect_def Let_def)
  next
    case (Inr un)
    let ?h0 = "[EvConnect ?cfg (Inr ())]"
    note run = run_connected [of e u p srv utc]
    obtain x h1 where ip: "inboxProbe srv ?h0 = (x, h1)"
      by (cases "inboxProbe srv ?h0")
    have h1: "filter isCreate h1 = [] \<and> filter isAppend h1 = []"
      using ip by (auto simp: inboxProbe_def requests Let_def split: sum.splits)
    show ?thesis
    proof (cases x)
      case (Some held)
      with Some Inr cr \<open>credentials e = Some cr\<close> ip h1 show ?thesis
        by (cases held)
           (auto simp: run tryBlock_def catchBlock_def requests Let_def)
    next
      case None
      from selection_fails_on_set_flags [OF assms, of h1] obtain err evs where
        s: "selectSent srv h1 = (Inl err, h1 @ evs)" and
        n: "filter isCreate evs = []" "filter isAppend evs = []"
        by blast
      have "findOrCreateSentBox e srv utc =
          (Inl err, (h1 @ evs) @ [EvLogout (logout_reply srv (h1 @ evs))])"
        using run_selection_failed [of e u p srv h1 err "h1 @ evs" utc]
          \<open>credentials e = Some cr\<close> cr Inr ip None s
        by simp
      with h1 n show ?thesis by simp
    qed
  qed
qed

section \<open>What a result rests on\<close>

lemma selectSent_Inr:
  assumes "selectSent srv h = (Inr (mb, d, c), h')"
  shows "\<exists>listed. list_all_reply srv (h @ [EvListSpecial (list_special_reply srv h)]) = Inr listed \<and>
           logFolders listed = Inr () \<and> d = detectDelimiter listed"
  using assms
  by (auto simp: selectSent_def listSpecial_def listAll_def Let_def
        split: sum.splits option.splits prod.splits)

lemma tryBlock_Inr:
  assumes "tryBlock srv u utc h = ((Inr r, lk), h')"
  shows "\<exists>h1 h2 h3 mb d c.
           inboxProbe srv h = (None, h1) \<and> selectSent srv h1 = (Inr (mb, d, c), h2) \<and>
           probeValidation srv (path mb) (testMessage u utc) h2 = (Inr (), h3) \<and>
           logout srv h3 = (Inr (), h') \<and>
           r = \<lparr>sentPath = path mb, delimiter = d, created = c\<rparr> \<and> lk = None"
  using assms
  by (auto simp: tryBlock_def split: prod.splits sum.splits option.splits)

lemma run_Inr:
  assumes "fst (findOrCreateSentBox e srv utc) = Inr r"
  shows "\<exists>u p x lk. credentials e = Some (u, p) \<and>
           tryBlock srv u utc [EvConnect (imapConfig e u p) x] =
             ((Inr r, lk), snd (findOrCreateSentBox e srv utc))"
  using assms
  by (auto simp: findOrCreateSentBox_def catchBlock_def connect_def Let_def
        split: option.splits prod.splits sum.splits)

text \<open>A delimiter that is returned is the one detected on an answer of the server to
  \<open>list('*')\<close>, and that answer has been printed without error.\<close>

lemma returned_delimiter:
  assumes "fst (findOrCreateSentBox e srv utc) = Inr r"
  shows "\<exists>h listed. list_all_reply srv h = Inr listed \<and> logFolders listed = Inr () \<and>
           delimiter r = detectDelimiter listed"
proof -
  from run_Inr [OF assms] obtain u p x lk where
    t: "tryBlock srv u utc [EvConnect (imapConfig e u p) x] =
          ((Inr r, lk), snd (findOrCreateSentBox e srv utc))"
    by blast
  from tryBlock_Inr [OF t] obtain h1 h2 mb d c where
    s: "selectSent srv h1 = (Inr (mb, d, c), h2)" and
    r: "r = \<lparr>sentPath = path mb, delimiter = d, created = c\<rparr>"
    by blast
  from selectSent_Inr [OF s] r show ?thesis
    by auto
qed

lemma set_flags_not_printed:
  assumes "logFolders listed = Inr ()"
  shows "\<forall>mb \<in> set listed. \<forall>fs. flags mb \<noteq> SetFlags fs"
  using assms
  by (induction listed) (auto simp: flagsJoin_def split: sum.splits js_flags.splits)

text \<open>So when the flags are listed in \<open>Set\<close>s, the only delimiter that is ever returned is
  the default one, on an empty listing.\<close>

lemma set_flags_default_delimiter:
  assumes "\<forall>h listed. list_all_reply srv h = Inr listed \<longrightarrow>
             (\<forall>mb \<in> set listed. \<exists>fs. flags mb = SetFlags fs)"
    and "fst (findOrCreateSentBox e srv utc) = Inr r"
  shows "delimiter r = ''/''"
proof -
  from returned_delimiter [OF assms(2)] obtain h listed where
    l: "list_all_reply srv h = Inr listed" and p: "logFolders listed = Inr ()" and
    d: "delimiter r = detectDelimiter listed"
    by blast
  from assms(1) l have "\<forall>mb \<in> set listed. \<exists>fs. flags mb = SetFlags fs"
    by blast
  with set_flags_not_printed [OF p] have "listed = []"
    by (cases listed) auto
  with d show ?thesis by simp
qed

section \<open>The creation loop\<close>

text \<open>
  At a server that accepts every creation and whose listing has none of the paths
  asked for, the loop asks for every path in turn and leaves no folder.
\<close>

lemma createLoop_goes_on:
  assumes "\<forall>h p. create_reply srv h p = Inr ()"
    and "\<forall>h. list_all_reply srv h = Inr listed"
    and "\<forall>p \<in> set ps. find (\<lambda>mb. path mb = p) listed = None"
  shows "createLoop srv ps c h =
           ((None, c \<or> ps \<noteq> []),
            h @ concat (map (\<lambda>p. [EvCreate p sentFlag (Inr ()), EvListAll (Inr listed)]) ps))"
  using assms(3)
proof (induction ps arbitrary: c h)
  case Nil
  show ?case by simp
next
  case (Cons p ps)
  then have "find (\<lambda>mb. path mb = p) listed = None" and
    rest: "\<forall>p \<in> set ps. find (\<lambda>mb. path mb = p) listed = None"
    by simp_all
  with assms(1,2) Cons.IH [OF rest, of True "h @ [EvCreate p sentFlag (Inr ()), EvListAll (Inr listed)]"]
  show ?case
    by (simp add: mailboxCreate_def listAll_def Let_def)
qed

section \<open>The hint of a refused probe\<close>

text \<open>
  When the client reports a refused command, the text of the server is not in the
  message: a probe append refused with the message \<open>Command failed\<close> ends the run
  with no creation and no second append, whatever the code of the server's answer.
\<close>

lemma command_failed_is_final:
  assumes "append_reply srv h sp msg = Inl err" and "message err = ''Command failed''"
  shows "probeValidation srv sp msg h =
           (let h1 = h @ [EvAppend sp msg probeFlags None (Inl err)]
            in (case logout_reply srv h1 of
                  Inl e3 \<Rightarrow> Inl e3
                | Inr u \<Rightarrow> Inl (appendFailed ''Command failed''),
                h1 @ [EvLogout (logout_reply srv h1)]))"
proof -
  have t: "errorText err = ''Command failed''"
    using assms(2) by (simp add: errorText_def)
  have "\<not> isTryCreate ''Command failed''"
    by code_simp
  with t have "\<not> isTryCreate (errorText err)"
    by simp
  from probe_refused [OF assms(1) this] show ?thesis
    unfolding t .
qed

section \<open>The claims on findOrCreateSentBox\<close>

text \<open>
  Claim C1. At a server whose SPECIAL-USE listing has the folder Sent, designated by
  the flag \<open>sentFlag\<close> and by \<open>specialUse\<close>, with its flags in a \<open>Set\<close> as the client
  library gives them, \<open>findOrCreateSentBox\<close> selects nothing and returns nothing: the
  search of the listing throws \<open>TypeError: mb.flags.includes is not a function\<close>, the
  session is logged out and the error is thrown to the caller. The same happens when
  the designation is in \<open>specialUse\<close> alone and the \<open>Set\<close> of flags is empty.
\<close>

theorem special_use_search_throws:
  "findOrCreateSentBox sampleEnv specialUseServer sampleUtc =
     (Inl (JsError ''TypeError'' ''mb.flags.includes is not a function''),
      [EvConnect (imapConfig sampleEnv ''relay@example.org'' ''secret'') (Inr ()),
       EvLock ''INBOX'' (Inr ''INBOX''),
       EvRelease ''INBOX'' (Inr ()),
       EvListSpecial (Inr [listedSent ''Sent'']),
       EvLogout (Inr ())]) \<and>
   findOrCreateSentBox sampleEnv attributeServer sampleUtc =
     (Inl (JsError ''TypeError'' ''mb.flags.includes is not a function''),
      [EvConnect (imapConfig sampleEnv ''relay@example.org'' ''secret'') (Inr ()),
       EvLock ''INBOX'' (Inr ''INBOX''),
       EvRelease ''INBOX'' (Inr ()),
       EvListSpecial (Inr [\<lparr>path = ''Sent'', flags = SetFlags [], specialUse = Some sentFlag\<rparr>]),
       EvLogout (Inr ())])"
  by code_simp

text \<open>
  Claim C2. At a server without a Sent designation that lists the folders INBOX,
  ENVIADOS and \<open>sent items\<close>, their flags in \<open>Set\<close>s, \<open>findOrCreateSentBox\<close> returns
  nothing: printing the folders of \<open>list('*')\<close> throws
  \<open>TypeError: mb.flags.join is not a function\<close> before any name is matched, and when the
  SPECIAL-USE listing gives the same folders the search of that listing throws first.
  The name matching itself, had it been reached, chooses \<open>sent items\<close>, for the
  candidate Sent Items.
\<close>

theorem name_matching_not_reached:
  "findOrCreateSentBox sampleEnv localizedServer sampleUtc =
     (Inl (JsError ''TypeError'' ''mb.flags.join is not a function''),
      [EvConnect (imapConfig sampleEnv ''relay@example.org'' ''secret'') (Inr ()),
       EvLock ''INBOX'' (Inr ''INBOX''),
       EvRelease ''INBOX'' (Inr ()),
       EvListSpecial (Inr []),
       EvListAll (Inr [listedFolder ''INBOX'', listedFolder ''ENVIADOS'', listedFolder ''sent items'']),
       EvLogout (Inr ())]) \<and>
   findOrCreateSentBox sampleEnv localizedAllServer sampleUtc =
     (Inl (JsError ''TypeError'' ''mb.flags.includes is not a function''),
      [EvConnect (imapConfig sampleEnv ''relay@example.org'' ''secret'') (Inr ()),
       EvLock ''INBOX'' (Inr ''INBOX''),
       EvRelease ''INBOX'' (Inr ()),
       EvListSpecial (Inr [listedFolder ''INBOX'', listedFolder ''ENVIADOS'', listedFolder ''sent items'']),
       EvLogout (Inr ())]) \<and>
   matchByName ''/'' [listedFolder ''INBOX'', listedFolder ''ENVIADOS'', listedFolder ''sent items''] =
     Some (listedFolder ''sent items'')"
  by code_simp

text \<open>
  Claim C3. At a server with the inbox alone, its flags in a \<open>Set\<close>,
  \<open>findOrCreateSentBox\<close> asks for no creation at all: printing the folders of
  \<open>list('*')\<close> throws \<open>TypeError: mb.flags.join is not a function\<close>. At a server that
  lists no folder and accepts every creation, all three creations are asked for and
  accepted, none being found in the new listing, and the run fails with the error of
  the creation loop although no creation has failed.
\<close>

theorem creation_skipped_or_repeated:
  "findOrCreateSentBox sampleEnv inboxOnlyServer sampleUtc =
     (Inl (JsError ''TypeError'' ''mb.flags.join is not a function''),
      [EvConnect (imapConfig sampleEnv ''relay@example.org'' ''secret'') (Inr ()),
       EvLock ''INBOX'' (Inr ''INBOX''),
       EvRelease ''INBOX'' (Inr ()),
       EvListSpecial (Inr []),
       EvListAll (Inr [listedFolder ''INBOX'']),
       EvLogout (Inr ())]) \<and>
   findOrCreateSentBox sampleEnv silentServer sampleUtc =
     (Inl noSentError,
      [EvConnect (imapConfig sampleEnv ''relay@example.org'' ''secret'') (Inr ()),
       EvLock ''INBOX'' (Inr ''INBOX''),
       EvRelease ''INBOX'' (Inr ()),
       EvListSpecial (Inr []),
       EvListAll (Inr []),
       EvCreate ''INBOX/Sent'' sentFlag (Inr ()),
       EvListAll (Inr []),
       EvCreate ''INBOX/Sent Items'' sentFlag (Inr ()),
       EvListAll (Inr []),
       EvCreate ''Sent'' sentFlag (Inr ()),
       EvListAll (Inr []),
       EvLogout (Inr ())])"
  by code_simp

text \<open>
  Claim C4. At a server that lists no folder but those created in the session and
  refuses the probe append with the answer \<open>NO [TRYCREATE]\<close>, which the client reports
  as the error \<open>Command failed\<close> with \<open>serverResponseCode\<close> TRYCREATE,
  \<open>findOrCreateSentBox\<close> does not see the hint: it asks for no creation after the
  refusal and for no second append, logs out (twice) and fails with the error
  \<open>appendFailed\<close> of the message \<open>Command failed\<close>. A message that holds the server's
  text would have been recognised.
\<close>

theorem tryCreate_hint_not_seen:
  "findOrCreateSentBox sampleEnv freshServer sampleUtc =
     (Inl (appendFailed ''Command failed''),
      [EvConnect (imapConfig sampleEnv ''relay@example.org'' ''secret'') (Inr ()),
       EvLock ''INBOX'' (Inr ''INBOX''),
       EvRelease ''INBOX'' (Inr ()),
       EvListSpecial (Inr []),
       EvListAll (Inr []),
       EvCreate ''INBOX/Sent'' sentFlag (Inr ()),
       EvListAll (Inr [listedFolder ''INBOX/Sent'']),
       EvAppend ''INBOX/Sent'' (testMessage ''relay@example.org'' sampleUtc) probeFlags None
         (Inl (CommandError ''Error'' ''Command failed'' ''TRYCREATE'')),
       EvLogout (Inr ()),
       EvLogout (Inr ())]) \<and>
   isTryCreate (errorText (CommandError ''Error'' ''Command failed'' ''TRYCREATE'')) = False \<and>
   isTryCreate ''NO [TRYCREATE] Mailbox does not exist'' = True"
  by code_simp

text \<open>
  Claim C5. At the servers that list the folders of the specification's two examples,
  INBOX, INBOX/Work, Drafts and INBOX, INBOX.Work, their flags in \<open>Set\<close>s,
  \<open>findOrCreateSentBox\<close> returns no delimiter: printing the folders of \<open>list('*')\<close>
  throws \<open>TypeError: mb.flags.join is not a function\<close> before the delimiter is looked
  for. The detection itself gives \<open>/\<close> on the first listing and \<open>.\<close> on the second.
\<close>

theorem delimiter_not_returned:
  "findOrCreateSentBox sampleEnv nestedServer sampleUtc =
     (Inl (JsError ''TypeError'' ''mb.flags.join is not a function''),
      [EvConnect (imapConfig sampleEnv ''relay@example.org'' ''secret'') (Inr ()),
       EvLock ''INBOX'' (Inr ''INBOX''),
       EvRelease ''INBOX'' (Inr ()),
       EvListSpecial (Inr []),
       EvListAll (Inr [listedFolder ''INBOX'', listedFolder ''INBOX/Work'', listedFolder ''Drafts'']),
       EvLogout (Inr ())]) \<and>
   findOrCreateSentBox sampleEnv dottedServer sampleUtc =
     (Inl (JsError ''TypeError'' ''mb.flags.join is not a function''),
      [EvConnect (imapConfig sampleEnv ''relay@example.org'' ''secret'') (Inr ()),
       EvLock ''INBOX'' (Inr ''INBOX''),
       EvRelease ''INBOX'' (Inr ()),
       EvListSpecial (Inr []),
       EvListAll (Inr [listedFolder ''INBOX'', listedFolder ''INBOX.Work'']),
       EvLogout (Inr ())]) \<and>
   detectDelimiter [listedFolder ''INBOX'', listedFolder ''INBOX/Work'', listedFolder ''Drafts''] = ''/'' \<and>
   detectDelimiter [listedFolder ''INBOX'', listedFolder ''INBOX.Work''] = ''.''"
  by code_simp


end
